theory Spec2Isabelle
  imports Complex_Main "HOL-Library.Sublist" "HOL-Library.Char_ord" "HOL-Library.List_Lexorder"
begin

section \<open>The Power PMAC console plugin (cli/ppmac\_plugin.py)\<close>

text \<open>
  The plugin is one stateful object, \<^verbatim>\<open>PpmacCore\<close>, whose methods are the operator's
  commands. Each command parses its arguments, checks the connection, talks to the
  device through the connection handle and prints. The modules it imports
  (\<^verbatim>\<open>pp_comm\<close>, \<^verbatim>\<open>ppmac_gather\<close>, \<^verbatim>\<open>ppmac_tune\<close>, \<^verbatim>\<open>ppmac_completer\<close>,
  \<^verbatim>\<open>ppmac_const\<close>) are collaborators: they appear here as the fields of an
  environment record, each a function of the outside world \<open>'w\<close>.
\<close>

subsection \<open>Exceptions, connection handles, output\<close>

datatype exn =
    GPError string
  | TimeoutError string
  | KeyboardInterrupt
  | KeyError string
  | TypeError string
  | AttributeError string
  | UnboundLocalError string
  | ValueError string
  | UsageError string
  | OtherException string

text \<open>
  \<^verbatim>\<open>str(ex)\<close>: the message of the exception; for a \<^verbatim>\<open>KeyError\<close> Python
  shows the message quoted.
\<close>

fun exn_str :: "exn \<Rightarrow> string" where
  "exn_str (GPError m) = m"
| "exn_str (TimeoutError m) = m"
| "exn_str KeyboardInterrupt = []"
| "exn_str (KeyError m) = [CHR 0x27] @ m @ [CHR 0x27]"
| "exn_str (TypeError m) = m"
| "exn_str (AttributeError m) = m"
| "exn_str (UnboundLocalError m) = m"
| "exn_str (ValueError m) = m"
| "exn_str (UsageError m) = m"
| "exn_str (OtherException m) = m"

text \<open>\<^verbatim>\<open>ex.__class__.__name__\<close>.\<close>

fun exn_name :: "exn \<Rightarrow> string" where
  "exn_name (GPError m) = ''GPError''"
| "exn_name (TimeoutError m) = ''TimeoutError''"
| "exn_name KeyboardInterrupt = ''KeyboardInterrupt''"
| "exn_name (KeyError m) = ''KeyError''"
| "exn_name (TypeError m) = ''TypeError''"
| "exn_name (AttributeError m) = ''AttributeError''"
| "exn_name (UnboundLocalError m) = ''UnboundLocalError''"
| "exn_name (ValueError m) = ''ValueError''"
| "exn_name (UsageError m) = ''UsageError''"
| "exn_name (OtherException m) = ''Exception''"

text \<open>
  \<^verbatim>\<open>except Exception\<close> catches everything but \<^verbatim>\<open>KeyboardInterrupt\<close>, which derives
  from \<^verbatim>\<open>BaseException\<close> only.
\<close>

fun is_Exception :: "exn \<Rightarrow> bool" where
  "is_Exception KeyboardInterrupt = False"
| "is_Exception e = True"

text \<open>
  \<^verbatim>\<open>PPComm(host=..., port=..., user=..., password=...)\<close>: the connection object is
  identified by the four values it was built from. Opening it may fail; that is the
  environment's \<open>PPComm_init\<close>.
\<close>

record ppcomm =
  comm_host :: string
  comm_port :: int
  comm_user :: string
  comm_password :: string

text \<open>
  A completer handle remembers the gpascii channel it was started with
  (\<^verbatim>\<open>gpascii=gpascii\<close>), which is \<^verbatim>\<open>None\<close> when there was no connection.
\<close>

datatype completer = Completer (completer_gpascii: "ppcomm option")

text \<open>Requests that go out through the connection handle \<^verbatim>\<open>self.comm\<close>.\<close>

datatype request =
    Get_variable string
  | Set_variable string string
  | Send_line string
  | Read_timeout
  | Shell_command string
  | Gather_and_plot "string list" real int
  | Read_settings_file "string option"
  | Get_gather_results "string list"
  | Copy_settings int int
  | Tune_range string string
  | Custom_tune string

text \<open>
  What a command leaves behind, in order: lines printed to the operator, log records,
  connection attempts, device requests and files written. \<open>Print_var var value\<close> is
  the line \<^verbatim>\<open>print('%s = %s' % (var, value))\<close> of the monitoring functions.
\<close>

datatype event =
    Print string
  | Print_var string string
  | Print_settings "(string \<times> string list) list"
  | Log_error string
  | Connect ppcomm
  | Device "ppcomm option" request
  | Gather_data_to_file string "string list" "string list list" string
  | Plt_show

text \<open>The events that are requests through the connection handle.\<close>

fun is_Device :: "event \<Rightarrow> bool" where
  "is_Device (Device c r) = True"
| "is_Device e = False"

subsection \<open>The collaborators\<close>

text \<open>
  Every field is an imported function the plugin calls. A call that can raise returns
  \<open>Inl\<close> the exception; every call may change the world.
\<close>

record 'w env =
  PPComm_init :: "ppcomm \<Rightarrow> 'w \<Rightarrow> exn option \<times> 'w"
  path_exists :: "string \<Rightarrow> 'w \<Rightarrow> bool"
  unlink :: "string \<Rightarrow> 'w \<Rightarrow> 'w"
  start_completer_from_db ::
    "string \<Rightarrow> ppcomm option \<Rightarrow> 'w \<Rightarrow> (exn + completer option) \<times> 'w"
  start_completer_from_mysql ::
    "string \<Rightarrow> string \<Rightarrow> string \<Rightarrow> ppcomm option \<Rightarrow> 'w \<Rightarrow> (exn + completer option) \<times> 'w"
  completer_check :: "completer \<Rightarrow> string \<Rightarrow> 'w \<Rightarrow> exn + string"
  completer_search :: "completer \<Rightarrow> string \<Rightarrow> string \<Rightarrow> 'w \<Rightarrow> exn + (string \<times> string option list) list"
  gp_get_variable :: "ppcomm \<Rightarrow> string \<Rightarrow> 'w \<Rightarrow> (exn + string) \<times> 'w"
  gp_set_variable :: "ppcomm \<Rightarrow> string \<Rightarrow> string \<Rightarrow> 'w \<Rightarrow> (exn + string) \<times> 'w"
  gp_send_line :: "ppcomm \<Rightarrow> string \<Rightarrow> 'w \<Rightarrow> exn option \<times> 'w"
  gp_read_timeout :: "ppcomm \<Rightarrow> real \<Rightarrow> 'w \<Rightarrow> (string list \<times> exn option) \<times> 'w"
  comm_shell_command :: "ppcomm \<Rightarrow> string \<Rightarrow> 'w \<Rightarrow> (exn + string list) \<times> 'w"
  gather_gather_and_plot :: "ppcomm option \<Rightarrow> string list \<Rightarrow> real \<Rightarrow> int \<Rightarrow> 'w \<Rightarrow> exn option \<times> 'w"
  gather_read_settings_file ::
    "ppcomm option \<Rightarrow> string option \<Rightarrow> 'w \<Rightarrow> (exn + (string \<times> string list) list) \<times> 'w"
  gather_get_gather_results ::
    "ppcomm option \<Rightarrow> string list \<Rightarrow> 'w \<Rightarrow> (exn + string list list) \<times> 'w"
  gather_gather_data_to_file ::
    "string \<Rightarrow> string list \<Rightarrow> string list list \<Rightarrow> string \<Rightarrow> 'w \<Rightarrow> exn option \<times> 'w"
  tune_copy_settings :: "ppcomm \<Rightarrow> int \<Rightarrow> int \<Rightarrow> completer option \<Rightarrow> 'w \<Rightarrow> exn option \<times> 'w"
  tune_tune_range ::
    "ppcomm \<Rightarrow> string \<Rightarrow> string \<Rightarrow> real list \<Rightarrow> 'w \<Rightarrow> (exn + real option \<times> real list) \<times> 'w"
  tune_custom_tune :: "ppcomm option \<Rightarrow> string \<Rightarrow> 'w \<Rightarrow> exn option \<times> 'w"
  tune_script_path :: "string \<Rightarrow> string"
  np_arange :: "real \<Rightarrow> real \<Rightarrow> real \<Rightarrow> real list"

subsection \<open>The state of the plugin\<close>

text \<open>
  The configurable traits and attributes of \<^verbatim>\<open>PpmacCore\<close> that the commands read or
  write, the world the collaborators act on, and the trace of what has happened.
\<close>

record 'w st =
  ide_host :: string
  host :: string
  port :: int
  user :: string
  password :: string
  auto_connect :: bool
  use_completer_db :: bool
  completer_db_file :: string
  comm :: "ppcomm option"
  completer_h :: "completer option"
  user_ns_ppmac :: "completer option"
  world :: 'w
  out :: "event list"

subsection \<open>Commands as state transformers\<close>

text \<open>
  A method of the plugin takes the state and gives back either its value or the
  exception that left it, with the new state.
\<close>

type_synonym ('a, 'w) cmd = "'w st \<Rightarrow> (exn + 'a) \<times> 'w st"

definition return :: "'a \<Rightarrow> ('a, 'w) cmd" where
  "return a s = (Inr a, s)"

definition raise :: "exn \<Rightarrow> ('a, 'w) cmd" where
  "raise e s = (Inl e, s)"

text \<open>Sequencing: an exception of the first part skips the second.\<close>

definition bindM :: "('a, 'w) cmd \<Rightarrow> ('a \<Rightarrow> ('b, 'w) cmd) \<Rightarrow> ('b, 'w) cmd" where
  "bindM f g s = (case f s of (Inl e, s') \<Rightarrow> (Inl e, s') | (Inr a, s') \<Rightarrow> g a s')"

text \<open>Reading an attribute, and assigning to attributes.\<close>

definition gets :: "('w st \<Rightarrow> 'a) \<Rightarrow> ('a, 'w) cmd" where
  "gets f s = (Inr (f s), s)"

definition modify :: "('w st \<Rightarrow> 'w st) \<Rightarrow> (unit, 'w) cmd" where
  "modify f s = (Inr (), f s)"

definition emit :: "event \<Rightarrow> (unit, 'w) cmd" where
  "emit ev s = (Inr (), s\<lparr>out := out s @ [ev]\<rparr>)"

text \<open>\<^verbatim>\<open>print(line)\<close> and \<^verbatim>\<open>logger.error(msg)\<close>.\<close>

definition print :: "string \<Rightarrow> (unit, 'w) cmd" where
  "print line = emit (Print line)"

definition logger_error :: "string \<Rightarrow> (unit, 'w) cmd" where
  "logger_error msg = emit (Log_error msg)"

text \<open>
  A collaborator call: the world moves on, and an exception of the collaborator is
  raised in the caller.
\<close>

definition ext :: "('w \<Rightarrow> (exn + 'a) \<times> 'w) \<Rightarrow> ('a, 'w) cmd" where
  "ext f s = (case f (world s) of (r, w') \<Rightarrow> (r, s\<lparr>world := w'\<rparr>))"

text \<open>A collaborator call that is recorded in the trace, before it is made.\<close>

definition call :: "event \<Rightarrow> ('w \<Rightarrow> (exn + 'a) \<times> 'w) \<Rightarrow> ('a, 'w) cmd" where
  "call ev f = bindM (emit ev) (\<lambda>_. ext f)"

text \<open>The same for a collaborator that returns nothing.\<close>

definition call0 :: "event \<Rightarrow> ('w \<Rightarrow> exn option \<times> 'w) \<Rightarrow> (unit, 'w) cmd" where
  "call0 ev f =
     call ev (\<lambda>w. case f w of (None, w') \<Rightarrow> (Inr (), w') | (Some e, w') \<Rightarrow> (Inl e, w'))"

text \<open>
  \<^verbatim>\<open>try: body except ...: handler\<close>. The handler function says which exceptions the
  clause catches (\<open>Some\<close> the code of the clause) and which it lets through.
\<close>

definition try_except ::
  "('a, 'w) cmd \<Rightarrow> (exn \<Rightarrow> ('a, 'w) cmd option) \<Rightarrow> ('a, 'w) cmd"
where
  "try_except body handler s =
     (case body s of
        (Inl ex, s') \<Rightarrow> (case handler ex of Some h \<Rightarrow> h s' | None \<Rightarrow> (Inl ex, s'))
      | (Inr a, s') \<Rightarrow> (Inr a, s'))"

text \<open>
  \<^verbatim>\<open>self.comm.<attr>\<close>: attribute access on \<^verbatim>\<open>None\<close> raises \<^verbatim>\<open>AttributeError\<close>.
\<close>

definition self_comm :: "(ppcomm, 'w) cmd" where
  "self_comm =
     bindM (gets comm) (\<lambda>cm.
       case cm of
         None \<Rightarrow> raise (AttributeError ''NoneType object has no attribute'')
       | Some c \<Rightarrow> return c)"

text \<open>A \<^verbatim>\<open>for\<close> loop over a list, run for its effects.\<close>

fun for_each :: "'a list \<Rightarrow> ('a \<Rightarrow> (unit, 'w) cmd) \<Rightarrow> (unit, 'w) cmd" where
  "for_each [] body = return ()"
| "for_each (x # xs) body = bindM (body x) (\<lambda>_. for_each xs body)"

subsection \<open>Connecting\<close>

text \<open>
  The first block of \<^verbatim>\<open>open_completer_db\<close>: load the completer from the database
  file when the file exists. The result is \<open>None\<close> when loading failed and the method
  returns at once, else \<open>Some c\<close> with \<open>c\<close> the value of the variable \<^verbatim>\<open>c\<close>.
  \<^verbatim>\<open>except Exception\<close> lets \<^verbatim>\<open>KeyboardInterrupt\<close> through.
\<close>

definition load_from_db ::
  "'w env \<Rightarrow> string \<Rightarrow> ppcomm option \<Rightarrow> (completer option option, 'w) cmd"
where
  "load_from_db E db_file gpascii =
     bindM (gets (\<lambda>s. path_exists E db_file (world s))) (\<lambda>exists.
       if exists
       then try_except
              (bindM (ext (start_completer_from_db E db_file gpascii)) (\<lambda>c. return (Some c)))
              (\<lambda>ex. if is_Exception ex
                     then Some (bindM (print (''Unable to load current db file: '' @ db_file @ '' (''
                                              @ exn_name ex @ '') '' @ exn_str ex)) (\<lambda>_.
                                bindM (print ''Remove it to try loading from the IDE machine's MySql'') (\<lambda>_.
                                return None)))
                     else None)
       else return (Some None))"

text \<open>
  The second block, entered when \<^verbatim>\<open>c is None\<close>: remove the file if it is there and
  load from the IDE machine. Nothing is caught here.
\<close>

definition load_from_mysql ::
  "'w env \<Rightarrow> string \<Rightarrow> ppcomm option \<Rightarrow> (completer option, 'w) cmd"
where
  "load_from_mysql E db_file gpascii =
     bindM (gets (\<lambda>s. path_exists E db_file (world s))) (\<lambda>exists.
     bindM (if exists then modify (\<lambda>s. s\<lparr>world := unlink E db_file (world s)\<rparr>) else return ()) (\<lambda>_.
     bindM (gets ide_host) (\<lambda>windows_ip.
     bindM (gets host) (\<lambda>ppmac_ip.
       ext (start_completer_from_mysql E windows_ip ppmac_ip db_file gpascii)))))"

text \<open>
  \<^verbatim>\<open>open_completer_db\<close>. The gpascii channel handed to the completer is that of the
  connection, or \<^verbatim>\<open>None\<close> when there is no connection.
\<close>

definition open_completer_db :: "'w env \<Rightarrow> (unit, 'w) cmd" where
  "open_completer_db E =
     bindM (gets completer_db_file) (\<lambda>db_file.
     bindM (gets comm) (\<lambda>gpascii.
     bindM (load_from_db E db_file gpascii) (\<lambda>loaded.
       case loaded of
         None \<Rightarrow> return ()
       | Some c0 \<Rightarrow>
           bindM (case c0 of
                    None \<Rightarrow> load_from_mysql E db_file gpascii
                  | Some k \<Rightarrow> return (Some k)) (\<lambda>c.
             case c of
               None \<Rightarrow> return ()
             | Some k \<Rightarrow>
                 bindM (modify (\<lambda>s. s\<lparr>completer_h := Some k, user_ns_ppmac := Some k\<rparr>)) (\<lambda>_.
                 print ''Completer loaded into namespace. Try ppmac.[tab]'')))))"

text \<open>
  \<^verbatim>\<open>connect(host=None, port=None, user=None, password=None)\<close>: an argument left
  \<^verbatim>\<open>None\<close> takes the configured value.
\<close>

definition connect ::
  "'w env \<Rightarrow> string option \<Rightarrow> int option \<Rightarrow> string option \<Rightarrow> string option \<Rightarrow> (unit, 'w) cmd"
where
  "connect E host0 port0 user0 password0 =
     bindM (case host0 of None \<Rightarrow> gets host | Some h \<Rightarrow> return h) (\<lambda>host1.
     bindM (case port0 of None \<Rightarrow> gets port | Some p \<Rightarrow> return p) (\<lambda>port1.
     bindM (case user0 of None \<Rightarrow> gets user | Some u \<Rightarrow> return u) (\<lambda>user1.
     bindM (case password0 of None \<Rightarrow> gets password | Some p \<Rightarrow> return p) (\<lambda>password1.
     let c = \<lparr>comm_host = host1, comm_port = port1, comm_user = user1, comm_password = password1\<rparr> in
     bindM (call0 (Connect c) (PPComm_init E c)) (\<lambda>_.
     bindM (modify (\<lambda>s. s\<lparr>comm := Some c\<rparr>)) (\<lambda>_.
     bindM (gets use_completer_db) (\<lambda>use_db.
       if use_db
       then bindM (modify (\<lambda>s. s\<lparr>completer_h := None\<rparr>)) (\<lambda>_. open_completer_db E)
       else return ())))))))"

text \<open>
  \<^verbatim>\<open>check_comm\<close>: connect if allowed, else log; the answer is whether there is a
  connection now.
\<close>

definition check_comm :: "'w env \<Rightarrow> (bool, 'w) cmd" where
  "check_comm E =
     bindM (gets comm) (\<lambda>cm.
     bindM (if cm = None
            then bindM (gets auto_connect) (\<lambda>auto.
                   if auto then connect E None None None None
                   else logger_error ''Not connected'')
            else return ()) (\<lambda>_.
     bindM (gets comm) (\<lambda>cm'. return (cm' \<noteq> None))))"

subsection \<open>Python's string helpers\<close>

text \<open>\<^verbatim>\<open>sep.join(xs)\<close>.\<close>

fun join :: "string \<Rightarrow> string list \<Rightarrow> string" where
  "join sep [] = []"
| "join sep [x] = x"
| "join sep (x # y # ys) = x @ sep @ join sep (y # ys)"

text \<open>
  \<^verbatim>\<open>s.split(c)\<close> for a one-character separator: the pieces between the separators,
  empty pieces kept, never an empty list.
\<close>

fun split :: "char \<Rightarrow> string \<Rightarrow> string list" where
  "split c [] = [[]]"
| "split c (x # xs) =
     (if x = c then [] # split c xs
      else (case split c xs of [] \<Rightarrow> [[x]] | w # ws \<Rightarrow> (x # w) # ws))"

text \<open>\<^verbatim>\<open>'%20s' % x\<close>: right-justified in a field of twenty.\<close>

definition fmt20 :: "string \<Rightarrow> string" where
  "fmt20 x = replicate (20 - length x) CHR '' '' @ x"

text \<open>\<^verbatim>\<open>line.rstrip()\<close>: trailing whitespace removed.\<close>

definition is_space :: "char \<Rightarrow> bool" where
  "is_space ch = (ch \<in> set [CHR '' '', CHR 0x09, CHR 0x0A, CHR 0x0B, CHR 0x0C, CHR 0x0D])"

definition rstrip :: "string \<Rightarrow> string" where
  "rstrip line = rev (dropWhile is_space (rev line))"

text \<open>\<^verbatim>\<open>'%s' % x\<close> for a value that may be \<^verbatim>\<open>None\<close>.\<close>

fun str_opt :: "string option \<Rightarrow> string" where
  "str_opt None = ''None''"
| "str_opt (Some x) = x"

text \<open>A list comprehension whose element expression can raise.\<close>

fun map_exn :: "('a \<Rightarrow> exn + 'b) \<Rightarrow> 'a list \<Rightarrow> exn + 'b list" where
  "map_exn f [] = Inr []"
| "map_exn f (x # xs) =
     (case f x of
        Inl e \<Rightarrow> Inl e
      | Inr y \<Rightarrow> (case map_exn f xs of Inl e \<Rightarrow> Inl e | Inr ys \<Rightarrow> Inr (y # ys)))"

subsection \<open>The gpascii commands\<close>

text \<open>
  The outcome of \<^verbatim>\<open>parse_argstring\<close> on the command line is an argument of each
  command: \<open>Inl\<close> when the parser raises, \<open>Inr None\<close> for a result that tests false,
  \<open>Inr (Some args)\<close> for the parsed arguments.
\<close>

record gpascii_args =
  gpascii_cmd :: "string list"
  gpascii_timeout :: real

text \<open>
  The \<^verbatim>\<open>gpascii\<close> command. \<^verbatim>\<open>read_timeout\<close> is a generator: it yields lines and
  may then raise.
\<close>

definition gpascii :: "'w env \<Rightarrow> exn + gpascii_args option \<Rightarrow> (unit, 'w) cmd" where
  "gpascii E parsed =
     bindM (check_comm E) (\<lambda>ok.
       if \<not> ok then return ()
       else (case parsed of
               Inl e \<Rightarrow> raise e
             | Inr None \<Rightarrow> return ()
             | Inr (Some args) \<Rightarrow>
                 bindM self_comm (\<lambda>gp.
                 let line = join '' '' (gpascii_cmd args) in
                 bindM (call0 (Device (Some gp) (Send_line line)) (gp_send_line E gp line)) (\<lambda>_.
                 try_except
                   (bindM (call (Device (Some gp) Read_timeout)
                             (\<lambda>w. case gp_read_timeout E gp (gpascii_timeout args) w of
                                     (r, w') \<Rightarrow> (Inr r, w')))
                      (\<lambda>(lines, stop).
                         bindM (for_each lines (\<lambda>line. if line \<noteq> [] then print line else return ()))
                           (\<lambda>_. case stop of None \<Rightarrow> return () | Some e \<Rightarrow> raise e)))
                   (\<lambda>ex. case ex of
                            KeyboardInterrupt \<Rightarrow> Some (return ())
                          | TimeoutError m \<Rightarrow> Some (return ())
                          | _ \<Rightarrow> None)))))"

text \<open>The clause \<^verbatim>\<open>except GPError as ex: print(ex)\<close>.\<close>

definition except_GPError :: "exn \<Rightarrow> (unit, 'w) cmd option" where
  "except_GPError ex = (case ex of GPError m \<Rightarrow> Some (print (exn_str ex)) | _ \<Rightarrow> None)"

definition get_var :: "'w env \<Rightarrow> exn + string option \<Rightarrow> (unit, 'w) cmd" where
  "get_var E parsed =
     bindM (check_comm E) (\<lambda>ok.
       if \<not> ok then return ()
       else (case parsed of
               Inl e \<Rightarrow> raise e
             | Inr None \<Rightarrow> return ()
             | Inr (Some variable) \<Rightarrow>
                 try_except
                   (bindM self_comm (\<lambda>c.
                    bindM (call (Device (Some c) (Get_variable variable))
                             (gp_get_variable E c variable)) (\<lambda>r.
                    print (variable @ ''='' @ r))))
                   except_GPError))"

record set_var_args =
  set_var_variable :: string
  set_var_value :: string

definition set_var :: "'w env \<Rightarrow> exn + set_var_args option \<Rightarrow> (unit, 'w) cmd" where
  "set_var E parsed =
     bindM (check_comm E) (\<lambda>ok.
       if \<not> ok then return ()
       else (case parsed of
               Inl e \<Rightarrow> raise e
             | Inr None \<Rightarrow> return ()
             | Inr (Some args) \<Rightarrow>
                 try_except
                   (bindM self_comm (\<lambda>c.
                    bindM (call (Device (Some c)
                                   (Set_variable (set_var_variable args) (set_var_value args)))
                             (gp_set_variable E c (set_var_variable args) (set_var_value args)))
                      (\<lambda>set_result.
                    print (set_var_variable args @ ''='' @ set_result))))
                   except_GPError))"

record v_args =
  v_variable :: string
  v_value :: "string option"

text \<open>
  The first statement of the \<^verbatim>\<open>v\<close> command after the checks.
  \<^verbatim>\<open>var, value = args.variable.split('=')[:2]\<close> unpacks the first two pieces; a
  string that contains \<^verbatim>\<open>=\<close> always has two.
\<close>

definition v_var_value :: "v_args \<Rightarrow> exn + string \<times> string option" where
  "v_var_value args =
     (if CHR ''='' \<in> set (v_variable args)
      then (case take 2 (split CHR ''='' (v_variable args)) of
              [var, value] \<Rightarrow> Inr (var, Some value)
            | _ \<Rightarrow> Inl (ValueError ''need more than 1 value to unpack''))
      else Inr (v_variable args, v_value args))"

definition v_cmd :: "'w env \<Rightarrow> exn + v_args option \<Rightarrow> (unit, 'w) cmd" where
  "v_cmd E parsed =
     bindM (check_comm E) (\<lambda>ok.
       if \<not> ok then return ()
       else (case parsed of
               Inl e \<Rightarrow> raise e
             | Inr None \<Rightarrow> return ()
             | Inr (Some args) \<Rightarrow>
                 (case v_var_value args of
                    Inl e \<Rightarrow> raise e
                  | Inr (var, value) \<Rightarrow>
                      try_except
                        (case value of
                           None \<Rightarrow>
                             bindM self_comm (\<lambda>c.
                             bindM (call (Device (Some c) (Get_variable var))
                                      (gp_get_variable E c var)) (\<lambda>r.
                             print (var @ ''='' @ r)))
                         | Some val \<Rightarrow>
                             bindM self_comm (\<lambda>c.
                             bindM (call (Device (Some c) (Set_variable var val))
                                      (gp_set_variable E c var val)) (\<lambda>r.
                             print (var @ ''='' @ r))))
                        except_GPError)))"

text \<open>\<^verbatim>\<open>shell_cmd(command)\<close>: an empty command returns before the connection check.\<close>

definition shell_cmd :: "'w env \<Rightarrow> string \<Rightarrow> (unit, 'w) cmd" where
  "shell_cmd E command =
     (if command = [] then return ()
      else bindM (check_comm E) (\<lambda>ok.
             if \<not> ok then return ()
             else bindM self_comm (\<lambda>c.
                  bindM (call (Device (Some c) (Shell_command command))
                           (comm_shell_command E c command)) (\<lambda>lines.
                  for_each lines (\<lambda>line. print (rstrip line))))))"

subsection \<open>Gathering\<close>

record gather_args =
  gather_duration :: real
  gather_period :: int
  gather_addresses :: "string list"

text \<open>
  \<^verbatim>\<open>fix_addr\<close>, the local function of \<^verbatim>\<open>gather\<close>: the completer, when there is one,
  rewrites the address; then the address gets the suffix \<^verbatim>\<open>.a\<close> unless it has it.
\<close>

definition fix_addr :: "'w env \<Rightarrow> completer option \<Rightarrow> 'w \<Rightarrow> string \<Rightarrow> exn + string" where
  "fix_addr E cpl w addr =
     (case (case cpl of None \<Rightarrow> Inr addr | Some k \<Rightarrow> completer_check E k addr w) of
        Inl e \<Rightarrow> Inl e
      | Inr addr1 \<Rightarrow> Inr (if \<not> suffix ''.a'' addr1 then addr1 @ ''.a'' else addr1))"

text \<open>
  The address list \<^verbatim>\<open>gather\<close> hands to \<^verbatim>\<open>gather.gather_and_plot\<close>: the fixed
  addresses, with \<^verbatim>\<open>Sys.ServoCount.a\<close> put in front when the fixed list lacks it.
\<close>

definition gather_addr :: "'w env \<Rightarrow> completer option \<Rightarrow> 'w \<Rightarrow> string list \<Rightarrow> exn + string list" where
  "gather_addr E cpl w addresses =
     (case map_exn (fix_addr E cpl w) addresses of
        Inl e \<Rightarrow> Inl e
      | Inr addr \<Rightarrow>
          Inr (if ''Sys.ServoCount.a'' \<notin> set addr then ''Sys.ServoCount.a'' # addr else addr))"

definition gather :: "'w env \<Rightarrow> exn + gather_args option \<Rightarrow> (unit, 'w) cmd" where
  "gather E parsed =
     (case parsed of
        Inl e \<Rightarrow> raise e
      | Inr None \<Rightarrow> return ()
      | Inr (Some args) \<Rightarrow>
          bindM (check_comm E) (\<lambda>ok.
            if \<not> ok then return ()
            else bindM (gets (\<lambda>s. gather_addr E (completer_h s) (world s) (gather_addresses args)))
                   (\<lambda>fixed. case fixed of
                      Inl e \<Rightarrow> raise e
                    | Inr addr \<Rightarrow>
                        bindM (gets comm) (\<lambda>cm.
                          call0 (Device cm (Gather_and_plot addr (gather_duration args)
                                              (gather_period args)))
                            (gather_gather_and_plot E cm addr (gather_duration args)
                               (gather_period args))))))"

text \<open>
  \<^verbatim>\<open>get_gather_results(settings_file=None, verbose=True)\<close>. The settings are a
  dictionary from names to lists of strings, kept as an association list.
\<close>

definition get_gather_results ::
  "'w env \<Rightarrow> string option \<Rightarrow> bool \<Rightarrow> ((string \<times> string list) list \<times> string list list, 'w) cmd"
where
  "get_gather_results E settings_file verbose =
     bindM (if verbose then print ''Reading gather settings...'' else return ()) (\<lambda>_.
     bindM (gets comm) (\<lambda>cm.
     bindM (call (Device cm (Read_settings_file settings_file))
              (gather_read_settings_file E cm settings_file)) (\<lambda>settings.
     case map_of settings ''gather.addr'' of
       None \<Rightarrow>
         bindM (emit (Print_settings settings)) (\<lambda>_.
         raise (KeyError (''gather.addr: Unable to read addresses from settings file (''
                          @ str_opt settings_file @ '')'')))
     | Some addresses \<Rightarrow>
         bindM (if verbose then print ''Reading gather data... '' else return ()) (\<lambda>_.
         bindM (call (Device cm (Get_gather_results addresses))
                  (gather_get_gather_results E cm addresses)) (\<lambda>data.
         bindM (if verbose then print ''done'' else return ()) (\<lambda>_.
         return (settings, data)))))))"

record gather_save_args =
  gather_save_save_to :: "string option"
  gather_save_settings_file :: "string option"
  gather_save_delimiter :: "string option"

text \<open>The clause \<^verbatim>\<open>except KeyError as ex: logger.error(ex); return\<close>.\<close>

definition except_KeyError :: "exn \<Rightarrow> ('a option, 'w) cmd option" where
  "except_KeyError ex =
     (case ex of
        KeyError m \<Rightarrow> Some (bindM (logger_error (exn_str ex)) (\<lambda>_. return None))
      | _ \<Rightarrow> None)"

text \<open>
  \<^verbatim>\<open>gather_save\<close>. After the \<^verbatim>\<open>try\<close>, \<^verbatim>\<open>settings['gather.addr']\<close> is read again,
  which raises \<^verbatim>\<open>KeyError\<close> for a missing key.
\<close>

definition gather_save :: "'w env \<Rightarrow> exn + gather_save_args option \<Rightarrow> (unit, 'w) cmd" where
  "gather_save E parsed =
     (case parsed of
        Inl e \<Rightarrow> raise e
      | Inr None \<Rightarrow> return ()
      | Inr (Some args) \<Rightarrow>
          bindM (check_comm E) (\<lambda>ok.
            if \<not> ok then return ()
            else bindM (try_except
                          (bindM (get_gather_results E (gather_save_settings_file args) True)
                             (\<lambda>r. return (Some r)))
                          except_KeyError)
                   (\<lambda>got. case got of
                      None \<Rightarrow> return ()
                    | Some (settings, data) \<Rightarrow>
                        (case map_of settings ''gather.addr'' of
                           None \<Rightarrow> raise (KeyError ''gather.addr'')
                         | Some addresses \<Rightarrow>
                             (let delim = (case gather_save_delimiter args of
                                             Some d \<Rightarrow> d | None \<Rightarrow> [CHR 0x09])
                              in case gather_save_save_to args of
                                   Some save_to \<Rightarrow>
                                     bindM (print (''Saving to '' @ save_to)) (\<lambda>_.
                                       call0 (Gather_data_to_file save_to addresses data delim)
                                         (gather_gather_data_to_file E save_to addresses data delim))
                                 | None \<Rightarrow>
                                     bindM (print (join '' '' (map fmt20 addresses))) (\<lambda>_.
                                       for_each data (\<lambda>line. print (join '' '' (map fmt20 line)))))))))"

subsection \<open>Tuning\<close>

text \<open>
  What \<^verbatim>\<open>custom_tune\<close> returns: nothing (\<^verbatim>\<open>None\<close>) when there is no connection, else
  whatever the tuning helper returned: the pair \<^verbatim>\<open>(best, rms)\<close> of
  \<^verbatim>\<open>tune.tune_range\<close>, or the result of \<^verbatim>\<open>tune.custom_tune\<close>, which no caller reads.
\<close>

datatype tune_ret = Ret_None | Ret_range "real option" "real list" | Ret_custom

text \<open>
  \<^verbatim>\<open>custom_tune(script, magic_args, range_var=None, range_values=None)\<close>. The keyword
  arguments copied from \<^verbatim>\<open>magic_args\<close> go to the helper unchanged and are left out.
  A missing script file is reported, and the method goes on.
\<close>

definition custom_tune ::
  "'w env \<Rightarrow> string \<Rightarrow> string option \<Rightarrow> real list \<Rightarrow> (tune_ret, 'w) cmd"
where
  "custom_tune E script range_var range_values =
     bindM (check_comm E) (\<lambda>ok.
       if \<not> ok then return Ret_None
       else (let fn = tune_script_path E script in
             bindM (gets (\<lambda>s. path_exists E fn (world s))) (\<lambda>exists.
             bindM (if \<not> exists then print (''Script file does not exist: '' @ fn)
                    else return ()) (\<lambda>_.
             bindM self_comm (\<lambda>gpascii.
             case range_var of
               Some rv \<Rightarrow>
                 bindM (call (Device (Some gpascii) (Tune_range fn rv))
                          (tune_tune_range E gpascii fn rv range_values))
                   (\<lambda>(best, rms). return (Ret_range best rms))
             | None \<Rightarrow>
                 bindM (gets comm) (\<lambda>cm.
                 bindM (call0 (Device cm (Custom_tune fn)) (tune_custom_tune E cm fn)) (\<lambda>_.
                 return Ret_custom)))))))"

text \<open>
  The commands \<^verbatim>\<open>ramp\<close> and \<^verbatim>\<open>pyramid\<close>: parse, then \<^verbatim>\<open>custom_tune\<close> with the
  script of the command; its result is not read.
\<close>

definition ramp :: "'w env \<Rightarrow> exn + unit option \<Rightarrow> (unit, 'w) cmd" where
  "ramp E parsed =
     (case parsed of
        Inl e \<Rightarrow> raise e
      | Inr None \<Rightarrow> return ()
      | Inr (Some args) \<Rightarrow> bindM (custom_tune E ''ramp.txt'' None []) (\<lambda>_. return ()))"

definition pyramid :: "'w env \<Rightarrow> exn + unit option \<Rightarrow> (unit, 'w) cmd" where
  "pyramid E parsed =
     (case parsed of
        Inl e \<Rightarrow> raise e
      | Inr None \<Rightarrow> return ()
      | Inr (Some args) \<Rightarrow> bindM (custom_tune E ''pyramid.txt'' None []) (\<lambda>_. return ()))"

record tune_range_args =
  tune_range_script :: string
  tune_range_variable :: string
  tune_range_values :: "real list option"
  tune_range_low :: "real option"
  tune_range_high :: "real option"
  tune_range_step :: "real option"

text \<open>
  The \<^verbatim>\<open>tune_range\<close> command. \<^verbatim>\<open>best, rms = self.custom_tune(...)\<close> unpacks the
  result; unpacking \<^verbatim>\<open>None\<close> raises \<^verbatim>\<open>TypeError\<close>. The plot itself is one event.
\<close>

definition tune_range :: "'w env \<Rightarrow> exn + tune_range_args option \<Rightarrow> (unit, 'w) cmd" where
  "tune_range E parsed =
     (case parsed of
        Inl e \<Rightarrow> raise e
      | Inr None \<Rightarrow> return ()
      | Inr (Some args) \<Rightarrow>
          (let param = tune_range_variable args;
               values = (case tune_range_values args of
                           Some vs \<Rightarrow> Some vs
                         | None \<Rightarrow>
                             (case (tune_range_low args, tune_range_high args, tune_range_step args) of
                                (Some lo, Some hi, Some st) \<Rightarrow> Some (np_arange E lo hi st)
                              | _ \<Rightarrow> None))
           in case values of
                None \<Rightarrow> print ''Must set either --values or --low/--high/--step''
              | Some vals \<Rightarrow>
                  bindM (custom_tune E (tune_range_script args) (Some param) vals) (\<lambda>r.
                    case r of
                      Ret_range best rms \<Rightarrow>
                        if length vals = length rms then emit Plt_show else return ()
                    | Ret_None \<Rightarrow> raise (TypeError ''NoneType object is not iterable'')
                    | Ret_custom \<Rightarrow> raise (TypeError ''object is not iterable''))))"

record servo_copy_args =
  servo_copy_motor_from :: int
  servo_copy_motor_to :: int

definition servo_copy :: "'w env \<Rightarrow> exn + servo_copy_args option \<Rightarrow> (unit, 'w) cmd" where
  "servo_copy E parsed =
     (case parsed of
        Inl e \<Rightarrow> raise e
      | Inr None \<Rightarrow> return ()
      | Inr (Some args) \<Rightarrow>
          bindM (check_comm E) (\<lambda>ok.
            if \<not> ok then return ()
            else if servo_copy_motor_from args = servo_copy_motor_to args
            then logger_error ''Destination motor should be different from source motor''
            else bindM self_comm (\<lambda>c.
                 bindM (gets completer_h) (\<lambda>cpl.
                   call0 (Device (Some c)
                            (Copy_settings (servo_copy_motor_from args) (servo_copy_motor_to args)))
                     (tune_copy_settings E c (servo_copy_motor_from args) (servo_copy_motor_to args)
                        cpl)))))"

subsection \<open>Searching the completer\<close>

record search_args =
  search_variable :: string
  search_text :: string

text \<open>
  \<^verbatim>\<open>fix_row\<close>: the items of a row that are neither \<^verbatim>\<open>u'NULL'\<close> nor \<^verbatim>\<open>None\<close>,
  joined by bars.
\<close>

definition fix_row :: "string option list \<Rightarrow> string" where
  "fix_row row = join '' | '' (map the (filter (\<lambda>item. item \<noteq> Some ''NULL'' \<and> item \<noteq> None) row))"

text \<open>
  The \<^verbatim>\<open>search\<close> command asks the completer only, so it does not check the
  connection.
\<close>

definition search :: "'w env \<Rightarrow> exn + search_args option \<Rightarrow> (unit, 'w) cmd" where
  "search E parsed =
     bindM (gets completer_h) (\<lambda>cpl.
       case cpl of
         None \<Rightarrow> print ''Completer not configured''
       | Some k \<Rightarrow>
           (case parsed of
              Inl e \<Rightarrow> raise e
            | Inr None \<Rightarrow> return ()
            | Inr (Some args) \<Rightarrow>
                bindM (gets (\<lambda>s. completer_search E k (search_variable args) (search_text args)
                                   (world s))) (\<lambda>found.
                  case found of
                    Inl e \<Rightarrow> raise e
                  | Inr items \<Rightarrow>
                      for_each items (\<lambda>(key, info). print (key @ '': '' @ fix_row info)))))"

subsection \<open>Status filters\<close>

text \<open>
  \<^verbatim>\<open>got_value(var, value)\<close>, the callback that \<^verbatim>\<open>mstatus\<close> defines. It closes over
  the command's arguments \<^verbatim>\<open>args.all\<close> and \<^verbatim>\<open>args.additional\<close>, the table
  \<^verbatim>\<open>const.motor_normal\<close> and the dictionary \<^verbatim>\<open>last_values\<close>, which it updates. The
  table is not part of this file, and Python's \<^verbatim>\<open>int\<close> is a builtin: both are
  parameters. When neither branch binds \<^verbatim>\<open>ret\<close>, reading it raises
  \<^verbatim>\<open>UnboundLocalError\<close>; an exception leaves \<^verbatim>\<open>last_values\<close> as it was.
\<close>

definition mstatus_got_value ::
  "(string \<Rightarrow> exn + int) \<Rightarrow> bool \<Rightarrow> string list \<Rightarrow> (string \<rightharpoonup> int) \<Rightarrow>
   string \<Rightarrow> string \<Rightarrow> (string \<rightharpoonup> string option) \<Rightarrow> (exn + string option) \<times> (string \<rightharpoonup> string option)"
where
  "mstatus_got_value int_of args_all args_additional motor_normal var0 value last_values =
     (let var = last (split CHR ''.'' var0) in
      case (if args_all \<or> var \<in> set args_additional then Inr (Some (Some value))
            else (case motor_normal var of
                    Some normal_value \<Rightarrow>
                      (let last_value = (case last_values var of None \<Rightarrow> None | Some r \<Rightarrow> r) in
                       case int_of value of
                         Inl e \<Rightarrow> Inl e
                       | Inr n \<Rightarrow>
                           Inr (Some (if n = normal_value
                                      then (if last_value \<noteq> None then Some value else None)
                                      else Some value)))
                  | None \<Rightarrow> Inr None)) of
        Inl e \<Rightarrow> (Inl e, last_values)
      | Inr None \<Rightarrow> (Inl (UnboundLocalError ''ret''), last_values)
      | Inr (Some ret) \<Rightarrow> (Inr ret, last_values(var \<mapsto> ret)))"

text \<open>The callback of \<^verbatim>\<open>cstatus\<close>, over \<^verbatim>\<open>const.coord_normal\<close>.\<close>

definition cstatus_got_value ::
  "(string \<Rightarrow> exn + int) \<Rightarrow> bool \<Rightarrow> string list \<Rightarrow> (string \<rightharpoonup> int) \<Rightarrow>
   string \<Rightarrow> string \<Rightarrow> (string \<rightharpoonup> string option) \<Rightarrow> (exn + string option) \<times> (string \<rightharpoonup> string option)"
where
  "cstatus_got_value int_of args_all args_additional coord_normal var0 value last_values =
     (let var = last (split CHR ''.'' var0) in
      case (if args_all \<or> var \<in> set args_additional then Inr (Some (Some value))
            else (case coord_normal var of
                    Some normal_value \<Rightarrow>
                      (let last_value = (case last_values var of None \<Rightarrow> None | Some r \<Rightarrow> r) in
                       case int_of value of
                         Inl e \<Rightarrow> Inl e
                       | Inr n \<Rightarrow>
                           Inr (Some (if n = normal_value
                                      then (if last_value \<noteq> None then Some value else None)
                                      else Some value)))
                  | None \<Rightarrow> Inr None)) of
        Inl e \<Rightarrow> (Inl e, last_values)
      | Inr None \<Rightarrow> (Inl (UnboundLocalError ''ret''), last_values)
      | Inr (Some ret) \<Rightarrow> (Inr ret, last_values(var \<mapsto> ret)))"

text \<open>
  The calls a command makes to its callback, one after the other from the dictionary
  it starts with: the outcome of each call, and the dictionary at the end.
\<close>

fun got_value_calls ::
  "(string \<Rightarrow> string \<Rightarrow> (string \<rightharpoonup> string option) \<Rightarrow> (exn + string option) \<times> (string \<rightharpoonup> string option)) \<Rightarrow>
   (string \<times> string) list \<Rightarrow> (string \<rightharpoonup> string option) \<Rightarrow>
   (exn + string option) list \<times> (string \<rightharpoonup> string option)"
where
  "got_value_calls cb [] last_values = ([], last_values)"
| "got_value_calls cb ((var, value) # calls) last_values =
     (case cb var value last_values of
        (r, lv) \<Rightarrow> (case got_value_calls cb calls lv of (rs, lv') \<Rightarrow> (r # rs, lv')))"

subsection \<open>Reading and monitoring variables\<close>

text \<open>
  \<^verbatim>\<open>get_var_values(comm, vars_, cb=None)\<close>. The callback is a closure with a state of
  its own, \<open>'cs\<close>. \<^verbatim>\<open>GPError\<close> and \<^verbatim>\<open>TimeoutError\<close> of the read become an error
  string in the result; any other exception of the read leaves the function; every
  exception of the callback is dropped and the value read is kept.
\<close>

type_synonym 'cs callback = "string \<Rightarrow> string \<Rightarrow> 'cs \<Rightarrow> (exn + string option) \<times> 'cs"

fun get_var_values_from ::
  "'w env \<Rightarrow> ppcomm option \<Rightarrow> 'cs callback option \<Rightarrow> string list \<Rightarrow> string option list \<Rightarrow>
   'cs \<Rightarrow> 'w st \<Rightarrow> (exn + string option list) \<times> 'cs \<times> 'w st"
where
  "get_var_values_from E cm cb [] ret cs s = (Inr ret, cs, s)"
| "get_var_values_from E cm cb (var # vars) ret cs s =
     (case cm of
        None \<Rightarrow> (Inl (AttributeError ''NoneType object has no attribute gpascii''), cs, s)
      | Some c \<Rightarrow>
          (case call (Device (Some c) (Get_variable var)) (gp_get_variable E c var) s of
             (Inl (GPError m), s') \<Rightarrow>
               get_var_values_from E cm cb vars
                 (ret @ [Some (''Error: '' @ exn_str (GPError m))]) cs s'
           | (Inl (TimeoutError m), s') \<Rightarrow>
               get_var_values_from E cm cb vars
                 (ret @ [Some (''Error: '' @ exn_str (TimeoutError m))]) cs s'
           | (Inl ex, s') \<Rightarrow> (Inl ex, cs, s')
           | (Inr value, s') \<Rightarrow>
               (case cb of
                  None \<Rightarrow> get_var_values_from E cm cb vars (ret @ [Some value]) cs s'
                | Some f \<Rightarrow>
                    (case f var value cs of
                       (Inl ex, cs') \<Rightarrow> get_var_values_from E cm cb vars (ret @ [Some value]) cs' s'
                     | (Inr value', cs') \<Rightarrow> get_var_values_from E cm cb vars (ret @ [value']) cs' s'))))"

definition get_var_values ::
  "'w env \<Rightarrow> ppcomm option \<Rightarrow> string list \<Rightarrow> 'cs callback option \<Rightarrow>
   'cs \<Rightarrow> 'w st \<Rightarrow> (exn + string option list) \<times> 'cs \<times> 'w st"
where
  "get_var_values E cm vars cb cs s = get_var_values_from E cm cb vars [] cs s"

text \<open>
  The loop \<^verbatim>\<open>for var, value in zip(vars, values): if value is not None: print(...)\<close>
  of \<^verbatim>\<open>print_var_values\<close> and of the initial report of \<^verbatim>\<open>monitor_variables\<close>.
\<close>

fun print_values :: "(string \<times> string option) list \<Rightarrow> 'w st \<Rightarrow> 'w st" where
  "print_values [] s = s"
| "print_values ((var, None) # rest) s = print_values rest s"
| "print_values ((var, Some value) # rest) s =
     print_values rest (s\<lparr>out := out s @ [Print_var var value]\<rparr>)"

definition print_var_values ::
  "'w env \<Rightarrow> ppcomm option \<Rightarrow> string list \<Rightarrow> 'cs callback option \<Rightarrow>
   'cs \<Rightarrow> 'w st \<Rightarrow> (exn + string option list) \<times> 'cs \<times> 'w st"
where
  "print_var_values E cm vars cb cs s =
     (case get_var_values E cm vars cb cs s of
        (Inl e, cs', s') \<Rightarrow> (Inl e, cs', s')
      | (Inr values, cs', s') \<Rightarrow> (Inr values, cs', print_values (zip vars values) s'))"

text \<open>
  The inner loop of \<^verbatim>\<open>monitor_variables\<close>, over
  \<^verbatim>\<open>zip(variables, last_values, values)\<close>: a value that is \<^verbatim>\<open>None\<close> is skipped, a
  value that differs from the old one is printed and its variable joins the change set.
\<close>

fun report_changes ::
  "(string \<times> string option \<times> string option) list \<Rightarrow> string set \<Rightarrow> 'w st \<Rightarrow> string set \<times> 'w st"
where
  "report_changes [] change_set s = (change_set, s)"
| "report_changes ((var, old_value, None) # rest) change_set s = report_changes rest change_set s"
| "report_changes ((var, old_value, Some new_value) # rest) change_set s =
     (if old_value \<noteq> Some new_value
      then report_changes rest (insert var change_set) (s\<lparr>out := out s @ [Print_var var new_value]\<rparr>)
      else report_changes rest change_set s)"

text \<open>What the polling loop carries from one iteration to the next.\<close>

record ('cs, 'w) monitor =
  mon_last_values :: "string option list"
  mon_change_set :: "string set"
  mon_cb_state :: 'cs
  mon_st :: "'w st"

text \<open>One iteration of \<^verbatim>\<open>while True\<close>: read, report, remember.\<close>

definition monitor_iteration ::
  "'w env \<Rightarrow> ppcomm option \<Rightarrow> string list \<Rightarrow> 'cs callback option \<Rightarrow>
   ('cs, 'w) monitor \<Rightarrow> exn \<times> ('cs, 'w) monitor + ('cs, 'w) monitor"
where
  "monitor_iteration E cm variables change_callback m =
     (case get_var_values E cm variables change_callback (mon_cb_state m) (mon_st m) of
        (Inl e, cs', s') \<Rightarrow> Inl (e, m\<lparr>mon_cb_state := cs', mon_st := s'\<rparr>)
      | (Inr values, cs', s') \<Rightarrow>
          (case report_changes (zip variables (zip (mon_last_values m) values))
                  (mon_change_set m) s' of
             (change_set', s'') \<Rightarrow>
               Inr \<lparr>mon_last_values = values, mon_change_set = change_set',
                    mon_cb_state = cs', mon_st = s''\<rparr>))"

text \<open>
  The loop has no exit of its own: it ends when an iteration raises. With \<open>n\<close>
  iterations allowed, \<open>None\<close> says that the loop is still polling after them.
\<close>

fun monitor_loop ::
  "'w env \<Rightarrow> ppcomm option \<Rightarrow> string list \<Rightarrow> 'cs callback option \<Rightarrow> nat \<Rightarrow>
   ('cs, 'w) monitor \<Rightarrow> (exn \<times> ('cs, 'w) monitor) option"
where
  "monitor_loop E cm variables change_callback 0 m = None"
| "monitor_loop E cm variables change_callback (Suc n) m =
     (case monitor_iteration E cm variables change_callback m of
        Inl stopped \<Rightarrow> Some stopped
      | Inr m' \<Rightarrow> monitor_loop E cm variables change_callback n m')"

text \<open>The loop state after exactly \<open>n\<close> iterations, when none of them raised.\<close>

fun monitor_after ::
  "'w env \<Rightarrow> ppcomm option \<Rightarrow> string list \<Rightarrow> 'cs callback option \<Rightarrow> nat \<Rightarrow>
   ('cs, 'w) monitor \<Rightarrow> ('cs, 'w) monitor option"
where
  "monitor_after E cm variables change_callback 0 m = Some m"
| "monitor_after E cm variables change_callback (Suc n) m =
     (case monitor_iteration E cm variables change_callback m of
        Inl stopped \<Rightarrow> None
      | Inr m' \<Rightarrow> monitor_after E cm variables change_callback n m')"

text \<open>
  \<^verbatim>\<open>monitor_variables(variables, f, comm=None, change_callback=None,
  show_change_set=False, show_initial=True)\<close>, with the number of iterations allowed.
  Without a \<^verbatim>\<open>comm\<close> argument the plugin's connection is used, and there must be one.
  \<^verbatim>\<open>KeyboardInterrupt\<close> ends the loop and the function returns; any other exception
  leaves the function.
\<close>

definition monitor_variables ::
  "'w env \<Rightarrow> string list \<Rightarrow> ppcomm option \<Rightarrow> 'cs callback option \<Rightarrow> bool \<Rightarrow> bool \<Rightarrow> nat \<Rightarrow>
   'cs \<Rightarrow> 'w st \<Rightarrow> ((exn + unit) \<times> 'cs \<times> 'w st) option"
where
  "monitor_variables E variables comm0 change_callback show_change_set show_initial n cs s =
     (let cm = (case comm0 of None \<Rightarrow> comm s | Some c \<Rightarrow> Some c) in
      if cm = None then Some (Inl (ValueError ''PpmacCore comm not connected''), cs, s)
      else (case get_var_values E cm variables change_callback cs s of
              (Inl e, cs1, s1) \<Rightarrow> Some (Inl e, cs1, s1)
            | (Inr last_values, cs1, s1) \<Rightarrow>
                (let s2 = (if show_initial then print_values (zip variables last_values) s1 else s1) in
                 case monitor_loop E cm variables change_callback n
                        \<lparr>mon_last_values = last_values, mon_change_set = {},
                         mon_cb_state = cs1, mon_st = s2\<rparr> of
                   None \<Rightarrow> None
                 | Some (KeyboardInterrupt, m) \<Rightarrow>
                     Some (Inr (), mon_cb_state m,
                           if show_change_set \<and> mon_change_set m \<noteq> {}
                           then (mon_st m)\<lparr>out := out (mon_st m) @ Print ''Variables changed:''
                                   # map Print (sorted_list_of_set (mon_change_set m))\<rparr>
                           else mon_st m)
                 | Some (e, m) \<Rightarrow> Some (Inl e, mon_cb_state m, mon_st m))))"

subsection \<open>Properties of traces\<close>

text \<open>
  A command \<open>only_adds P\<close> when all it does to the trace is append events that
  satisfy \<open>P\<close>; it \<open>keeps_comm\<close> when it leaves the connection handle as it is.
\<close>

definition only_adds :: "(event \<Rightarrow> bool) \<Rightarrow> ('a, 'w) cmd \<Rightarrow> bool" where
  "only_adds P f \<longleftrightarrow> (\<forall>s r s'. f s = (r, s') \<longrightarrow> (\<exists>evs. out s' = out s @ evs \<and> list_all P evs))"

definition keeps_comm :: "('a, 'w) cmd \<Rightarrow> bool" where
  "keeps_comm f \<longleftrightarrow> (\<forall>s r s'. f s = (r, s') \<longrightarrow> comm s' = comm s)"

text \<open>The events a command added to the trace of the state it started in.\<close>

definition added :: "'w st \<Rightarrow> 'w st \<Rightarrow> event list" where
  "added s s' = drop (length (out s)) (out s')"

subsection \<open>A simulated controller\<close>

text \<open>
  A small environment to run the commands on: the world is a clock that every device
  call advances. The variable \<^verbatim>\<open>bad\<close> is unknown to the controller, \<^verbatim>\<open>tick\<close>
  alternates with the clock, reading \<^verbatim>\<open>stop\<close> from the eighth tick on stands for the
  operator pressing Ctrl-C, every other read gives \<^verbatim>\<open>7\<close>. There is no database file; the completer comes from
  the IDE machine and leaves addresses as they are.
\<close>

definition sim_get_variable :: "ppcomm \<Rightarrow> string \<Rightarrow> nat \<Rightarrow> (exn + string) \<times> nat" where
  "sim_get_variable c var w =
     (if var = ''bad'' then (Inl (GPError ''ILLEGAL CMD''), Suc w)
      else if var = ''stop'' \<and> 8 \<le> w then (Inl KeyboardInterrupt, Suc w)
      else if var = ''tick'' then (Inr (if even w then ''0'' else ''1''), Suc w)
      else (Inr ''7'', Suc w))"

definition sim_set_variable :: "ppcomm \<Rightarrow> string \<Rightarrow> string \<Rightarrow> nat \<Rightarrow> (exn + string) \<times> nat" where
  "sim_set_variable c var val w =
     (if var = ''bad'' then (Inl (GPError ''ILLEGAL CMD''), Suc w) else (Inr val, Suc w))"

definition sim_settings :: "string option \<Rightarrow> (string \<times> string list) list" where
  "sim_settings settings_file =
     (if settings_file = Some ''empty.txt'' then [(''gather.period'', [''1''])]
      else [(''gather.addr'', [''Sys.ServoCount.a'', ''Motor[1].ActPos.a''])])"

definition sim_env :: "nat env" where
  "sim_env =
     \<lparr>PPComm_init = (\<lambda>c w. (None, w)),
      path_exists = (\<lambda>p w. False),
      unlink = (\<lambda>p w. w),
      start_completer_from_db = (\<lambda>db gp w. (Inr None, w)),
      start_completer_from_mysql = (\<lambda>ip1 ip2 db gp w. (Inr (Some (Completer gp)), w)),
      completer_check = (\<lambda>k addr w. Inr addr),
      completer_search = (\<lambda>k var text w. Inr []),
      gp_get_variable = sim_get_variable,
      gp_set_variable = sim_set_variable,
      gp_send_line = (\<lambda>c line w. (None, Suc w)),
      gp_read_timeout = (\<lambda>c t w. (([], Some (TimeoutError ''timed out'')), Suc w)),
      comm_shell_command = (\<lambda>c cmd w. (Inr [], Suc w)),
      gather_gather_and_plot = (\<lambda>cm addr d p w. (None, Suc w)),
      gather_read_settings_file = (\<lambda>cm f w. (Inr (sim_settings f), Suc w)),
      gather_get_gather_results = (\<lambda>cm addr w. (Inr [[''0'', ''1.5'']], Suc w)),
      gather_gather_data_to_file = (\<lambda>f addr data delim w. (None, w)),
      tune_copy_settings = (\<lambda>c m1 m2 k w. (None, Suc w)),
      tune_tune_range = (\<lambda>c fn rv vals w. (Inr (None, []), Suc w)),
      tune_custom_tune = (\<lambda>cm fn w. (None, Suc w)),
      tune_script_path = (\<lambda>script. ''tune/'' @ script),
      np_arange = (\<lambda>lo hi st. [])\<rparr>"

text \<open>The connection the defaults of the traits give.\<close>

definition sim_comm :: ppcomm where
  "sim_comm = \<lparr>comm_host = ''10.0.0.98'', comm_port = 22, comm_user = ''root'',
               comm_password = ''deltatau''\<rparr>"

text \<open>
  The plugin with the default values of its traits, before any connection and before a
  completer is loaded; the same with \<^verbatim>\<open>auto_connect\<close> switched off; and the plugin
  once connected.
\<close>

definition sim_st :: "nat st" where
  "sim_st =
     \<lparr>ide_host = ''10.0.0.6'', host = ''10.0.0.98'', port = 22, user = ''root'',
      password = ''deltatau'', auto_connect = True, use_completer_db = True,
      completer_db_file = ''ppmac.db'', comm = None, completer_h = None,
      user_ns_ppmac = None, world = 0, out = []\<rparr>"

definition sim_manual :: "nat st" where
  "sim_manual = sim_st\<lparr>auto_connect := False\<rparr>"

definition sim_connected :: "nat st" where
  "sim_connected = sim_st\<lparr>comm := Some sim_comm\<rparr>"

text \<open>
  For the status filters: a stand-in for Python's \<^verbatim>\<open>int\<close> that knows two numerals, and
  a table of normal values.
\<close>

definition sim_int :: "string \<Rightarrow> exn + int" where
  "sim_int v =
     (if v = ''0'' then Inr 0 else if v = ''1'' then Inr 1
      else Inl (ValueError ''invalid literal for int()''))"

definition sim_motor_normal :: "string \<rightharpoonup> int" where
  "sim_motor_normal = [''AmpFault'' \<mapsto> 0, ''InPos'' \<mapsto> 1]"

section \<open>Verification\<close>

subsection \<open>Running the combinators\<close>

lemma bindM_return [simp]: "bindM (return a) g s = g a s"
  by (simp add: bindM_def return_def)

lemma bindM_raise [simp]: "bindM (raise e) g s = (Inl e, s)"
  by (simp add: bindM_def raise_def)

lemma bindM_gets [simp]: "bindM (gets f) g s = g (f s) s"
  by (simp add: bindM_def gets_def)

lemma bindM_modify [simp]: "bindM (modify f) g s = g () (f s)"
  by (simp add: bindM_def modify_def)

lemma bindM_emit [simp]: "bindM (emit ev) g s = g () (s\<lparr>out := out s @ [ev]\<rparr>)"
  by (simp add: bindM_def emit_def)

lemma bindM_print [simp]: "bindM (print line) g s = g () (s\<lparr>out := out s @ [Print line]\<rparr>)"
  by (simp add: print_def)

lemma bindM_logger_error [simp]:
  "bindM (logger_error msg) g s = g () (s\<lparr>out := out s @ [Log_error msg]\<rparr>)"
  by (simp add: logger_error_def)

lemma bindM_Inl: "f s = (Inl e, s') \<Longrightarrow> bindM f g s = (Inl e, s')"
  by (simp add: bindM_def)

lemma bindM_Inr: "f s = (Inr a, s') \<Longrightarrow> bindM f g s = g a s'"
  by (simp add: bindM_def)

lemma return_apply [simp]: "return a s = (Inr a, s)"
  by (simp add: return_def)

lemma raise_apply [simp]: "raise e s = (Inl e, s)"
  by (simp add: raise_def)

lemma emit_apply [simp]: "emit ev s = (Inr (), s\<lparr>out := out s @ [ev]\<rparr>)"
  by (simp add: emit_def)

lemma print_apply [simp]: "print line s = (Inr (), s\<lparr>out := out s @ [Print line]\<rparr>)"
  by (simp add: print_def)

lemma logger_error_apply [simp]:
  "logger_error msg s = (Inr (), s\<lparr>out := out s @ [Log_error msg]\<rparr>)"
  by (simp add: logger_error_def)

lemma self_comm_Some [simp]: "comm s = Some c \<Longrightarrow> self_comm s = (Inr c, s)"
  by (simp add: self_comm_def)

lemma self_comm_None [simp]:
  "comm s = None \<Longrightarrow> self_comm s = (Inl (AttributeError ''NoneType object has no attribute''), s)"
  by (simp add: self_comm_def)

lemma call_apply:
  "call ev f s = (case f (world s) of (r, w') \<Rightarrow> (r, s\<lparr>world := w', out := out s @ [ev]\<rparr>))"
  by (simp add: call_def ext_def split: prod.splits)

subsection \<open>Rules for the trace properties\<close>

lemma only_addsI:
  "(\<And>s r s'. f s = (r, s') \<Longrightarrow> \<exists>evs. out s' = out s @ evs \<and> list_all P evs) \<Longrightarrow> only_adds P f"
  by (simp add: only_adds_def)

lemma only_addsD:
  "only_adds P f \<Longrightarrow> f s = (r, s') \<Longrightarrow> \<exists>evs. out s' = out s @ evs \<and> list_all P evs"
  by (simp add: only_adds_def)

lemma only_adds_return [intro!, simp]: "only_adds P (return a)"
  by (simp add: only_adds_def return_def)

lemma only_adds_raise [intro!, simp]: "only_adds P (raise e)"
  by (simp add: only_adds_def raise_def)

lemma only_adds_gets [intro!, simp]: "only_adds P (gets f)"
  by (simp add: only_adds_def gets_def)

lemma only_adds_modify [intro]: "(\<And>s. out (f s) = out s) \<Longrightarrow> only_adds P (modify f)"
  by (auto simp add: only_adds_def modify_def)

lemma only_adds_emit [intro]: "P ev \<Longrightarrow> only_adds P (emit ev)"
  by (auto simp add: only_adds_def emit_def)

lemma only_adds_ext [intro!, simp]: "only_adds P (ext f)"
  by (auto simp add: only_adds_def ext_def split: prod.splits)

lemma only_adds_bindM [intro]:
  assumes "only_adds P f" and "\<And>a. only_adds P (g a)"
  shows "only_adds P (bindM f g)"
proof (rule only_addsI)
  fix s r s'
  assume run: "bindM f g s = (r, s')"
  obtain r1 s1 where f: "f s = (r1, s1)" by (cases "f s")
  from only_addsD [OF assms(1) f] obtain evs1
    where evs1: "out s1 = out s @ evs1" "list_all P evs1" by blast
  show "\<exists>evs. out s' = out s @ evs \<and> list_all P evs"
  proof (cases r1)
    case (Inl e)
    with run f have "s' = s1" by (simp add: bindM_def)
    with evs1 show ?thesis by blast
  next
    case (Inr a)
    with run f have "g a s1 = (r, s')" by (simp add: bindM_def)
    from only_addsD [OF assms(2) this] obtain evs2
      where "out s' = out s1 @ evs2" "list_all P evs2" by blast
    with evs1 have "out s' = out s @ (evs1 @ evs2) \<and> list_all P (evs1 @ evs2)" by simp
    then show ?thesis by blast
  qed
qed

lemma only_adds_try_except [intro]:
  assumes "only_adds P f" and "\<And>ex h. handler ex = Some h \<Longrightarrow> only_adds P h"
  shows "only_adds P (try_except f handler)"
proof (rule only_addsI)
  fix s r s'
  assume run: "try_except f handler s = (r, s')"
  obtain r1 s1 where f: "f s = (r1, s1)" by (cases "f s")
  from only_addsD [OF assms(1) f] obtain evs1
    where evs1: "out s1 = out s @ evs1" "list_all P evs1" by blast
  show "\<exists>evs. out s' = out s @ evs \<and> list_all P evs"
  proof (cases r1)
    case (Inr a)
    with run f have "s' = s1" by (simp add: try_except_def)
    with evs1 show ?thesis by blast
  next
    case (Inl ex)
    show ?thesis
    proof (cases "handler ex")
      case None
      with run f Inl have "s' = s1" by (simp add: try_except_def)
      with evs1 show ?thesis by blast
    next
      case (Some h)
      with run f Inl have "h s1 = (r, s')" by (simp add: try_except_def)
      from only_addsD [OF assms(2) [OF Some] this] obtain evs2
        where "out s' = out s1 @ evs2" "list_all P evs2" by blast
      with evs1 have "out s' = out s @ (evs1 @ evs2) \<and> list_all P (evs1 @ evs2)" by simp
      then show ?thesis by blast
    qed
  qed
qed

lemma only_adds_print [intro]: "P (Print line) \<Longrightarrow> only_adds P (print line)"
  by (auto simp: print_def)

lemma only_adds_logger_error [intro]: "P (Log_error m) \<Longrightarrow> only_adds P (logger_error m)"
  by (auto simp: logger_error_def)

lemma only_adds_call [intro]: "P ev \<Longrightarrow> only_adds P (call ev f)"
  by (auto simp: call_def)

lemma only_adds_call0 [intro]: "P ev \<Longrightarrow> only_adds P (call0 ev f)"
  by (auto simp: call0_def)

lemma only_adds_if [intro]: "only_adds P f \<Longrightarrow> only_adds P g \<Longrightarrow> only_adds P (if b then f else g)"
  by simp

lemma only_adds_case_option [intro]:
  "only_adds P f \<Longrightarrow> (\<And>x. only_adds P (g x)) \<Longrightarrow> only_adds P (case v of None \<Rightarrow> f | Some x \<Rightarrow> g x)"
  by (cases v) simp_all

lemma only_adds_case_sum [intro]:
  "(\<And>x. only_adds P (f x)) \<Longrightarrow> (\<And>x. only_adds P (g x)) \<Longrightarrow>
   only_adds P (case v of Inl x \<Rightarrow> f x | Inr x \<Rightarrow> g x)"
  by (cases v) simp_all

lemma only_adds_for_each [intro]:
  "(\<And>x. only_adds P (body x)) \<Longrightarrow> only_adds P (for_each xs body)"
  by (induction xs) (auto intro: only_adds_bindM)

lemma only_adds_mono: "only_adds P f \<Longrightarrow> (\<And>e. P e \<Longrightarrow> Q e) \<Longrightarrow> only_adds Q f"
  unfolding only_adds_def list_all_iff by blast

lemma keeps_commI: "(\<And>s r s'. f s = (r, s') \<Longrightarrow> comm s' = comm s) \<Longrightarrow> keeps_comm f"
  by (simp add: keeps_comm_def)

lemma keeps_commD: "keeps_comm f \<Longrightarrow> f s = (r, s') \<Longrightarrow> comm s' = comm s"
  by (simp add: keeps_comm_def)

lemma keeps_comm_return [intro!, simp]: "keeps_comm (return a)"
  by (simp add: keeps_comm_def return_def)

lemma keeps_comm_raise [intro!, simp]: "keeps_comm (raise e)"
  by (simp add: keeps_comm_def raise_def)

lemma keeps_comm_gets [intro!, simp]: "keeps_comm (gets f)"
  by (simp add: keeps_comm_def gets_def)

lemma keeps_comm_modify [intro]: "(\<And>s. comm (f s) = comm s) \<Longrightarrow> keeps_comm (modify f)"
  by (auto simp add: keeps_comm_def modify_def)

lemma keeps_comm_emit [intro!, simp]: "keeps_comm (emit ev)"
  by (auto simp add: keeps_comm_def emit_def)

lemma keeps_comm_print [intro!, simp]: "keeps_comm (print line)"
  by (simp add: print_def)

lemma keeps_comm_ext [intro!, simp]: "keeps_comm (ext f)"
  by (auto simp add: keeps_comm_def ext_def split: prod.splits)

lemma keeps_comm_bindM [intro]:
  assumes "keeps_comm f" and "\<And>a. keeps_comm (g a)"
  shows "keeps_comm (bindM f g)"
proof (rule keeps_commI)
  fix s r s'
  assume run: "bindM f g s = (r, s')"
  obtain r1 s1 where f: "f s = (r1, s1)" by (cases "f s")
  note c1 = keeps_commD [OF assms(1) f]
  show "comm s' = comm s"
  proof (cases r1)
    case (Inl e)
    with run f have "s' = s1" by (simp add: bindM_def)
    with c1 show ?thesis by simp
  next
    case (Inr a)
    with run f have "g a s1 = (r, s')" by (simp add: bindM_def)
    from keeps_commD [OF assms(2) this] c1 show ?thesis by simp
  qed
qed

lemma keeps_comm_try_except [intro]:
  assumes "keeps_comm f" and "\<And>ex h. handler ex = Some h \<Longrightarrow> keeps_comm h"
  shows "keeps_comm (try_except f handler)"
proof (rule keeps_commI)
  fix s r s'
  assume run: "try_except f handler s = (r, s')"
  obtain r1 s1 where f: "f s = (r1, s1)" by (cases "f s")
  note c1 = keeps_commD [OF assms(1) f]
  show "comm s' = comm s"
  proof (cases r1)
    case (Inr a)
    with run f have "s' = s1" by (simp add: try_except_def)
    with c1 show ?thesis by simp
  next
    case (Inl ex)
    show ?thesis
    proof (cases "handler ex")
      case None
      with run f Inl have "s' = s1" by (simp add: try_except_def)
      with c1 show ?thesis by simp
    next
      case (Some h)
      with run f Inl have "h s1 = (r, s')" by (simp add: try_except_def)
      from keeps_commD [OF assms(2) [OF Some] this] c1 show ?thesis by simp
    qed
  qed
qed

lemma only_adds_load_from_db: "only_adds (\<lambda>e. \<not> is_Device e) (load_from_db E db_file gp)"
  unfolding load_from_db_def
  apply (intro only_adds_bindM only_adds_if only_adds_try_except only_adds_gets only_adds_return only_adds_ext)
  apply (auto split: if_splits intro!: only_adds_bindM only_adds_print)
  done

lemma keeps_comm_load_from_db: "keeps_comm (load_from_db E db_file gp)"
  unfolding load_from_db_def
  apply (intro keeps_comm_bindM keeps_comm_try_except keeps_comm_gets keeps_comm_return keeps_comm_ext)
  apply (auto split: if_splits intro!: keeps_comm_bindM)
  done

lemma only_adds_load_from_mysql: "only_adds (\<lambda>e. \<not> is_Device e) (load_from_mysql E db_file gp)"
  unfolding load_from_mysql_def
  by (intro only_adds_bindM only_adds_if only_adds_gets only_adds_return only_adds_ext only_adds_modify)
     simp

lemma keeps_comm_load_from_mysql: "keeps_comm (load_from_mysql E db_file gp)"
  unfolding load_from_mysql_def
  by (intro keeps_comm_bindM keeps_comm_gets keeps_comm_ext)
     (auto intro!: keeps_comm_modify)

lemma only_adds_open_completer_db: "only_adds (\<lambda>e. \<not> is_Device e) (open_completer_db E)"
  unfolding open_completer_db_def
  by (intro only_adds_bindM only_adds_gets only_adds_load_from_db only_adds_case_option
        only_adds_return only_adds_load_from_mysql only_adds_modify only_adds_print)
     simp_all

lemma keeps_comm_open_completer_db: "keeps_comm (open_completer_db E)"
  unfolding open_completer_db_def
  by (intro keeps_comm_bindM keeps_comm_gets keeps_comm_load_from_db)
     (auto split: option.splits intro!: keeps_comm_bindM keeps_comm_modify keeps_comm_load_from_mysql)

lemma only_adds_connect: "only_adds (\<lambda>e. \<not> is_Device e) (connect E h p u pw)"
  unfolding connect_def Let_def
  by (intro only_adds_bindM only_adds_case_option only_adds_gets only_adds_return only_adds_call0
        only_adds_modify only_adds_if only_adds_open_completer_db)
     simp_all

lemma only_adds_check_comm: "only_adds (\<lambda>e. \<not> is_Device e) (check_comm E)"
  unfolding check_comm_def
  by (intro only_adds_bindM only_adds_gets only_adds_if only_adds_connect only_adds_logger_error
        only_adds_return)
     simp_all

lemma bindM_assoc [simp]: "bindM (bindM f g) h = bindM f (\<lambda>a. bindM (g a) h)"
  by (rule ext) (simp add: bindM_def split: prod.splits sum.splits)

lemma call0_apply:
  "call0 ev f s =
     (case f (world s) of
        (None, w') \<Rightarrow> (Inr (), s\<lparr>world := w', out := out s @ [ev]\<rparr>)
      | (Some e, w') \<Rightarrow> (Inl e, s\<lparr>world := w', out := out s @ [ev]\<rparr>))"
  by (simp add: call0_def call_apply split: prod.splits option.splits)

lemma ext_apply: "ext f s = (case f (world s) of (r, w') \<Rightarrow> (r, s\<lparr>world := w'\<rparr>))"
  by (simp add: ext_def)

lemma bindM_ext:
  "bindM (ext f) g s =
     (case f (world s) of
        (Inl e, w') \<Rightarrow> (Inl e, s\<lparr>world := w'\<rparr>)
      | (Inr a, w') \<Rightarrow> g a (s\<lparr>world := w'\<rparr>))"
  by (simp add: bindM_def ext_def split: prod.splits sum.splits)

lemma bindM_call:
  "bindM (call ev f) g s =
     (case f (world s) of
        (Inl e, w') \<Rightarrow> (Inl e, s\<lparr>world := w', out := out s @ [ev]\<rparr>)
      | (Inr a, w') \<Rightarrow> g a (s\<lparr>world := w', out := out s @ [ev]\<rparr>))"
  by (simp add: bindM_def call_apply split: prod.splits sum.splits)

lemma bindM_call0:
  "bindM (call0 ev f) g s =
     (case f (world s) of
        (None, w') \<Rightarrow> g () (s\<lparr>world := w', out := out s @ [ev]\<rparr>)
      | (Some e, w') \<Rightarrow> (Inl e, s\<lparr>world := w', out := out s @ [ev]\<rparr>))"
  by (simp add: bindM_def call0_apply split: prod.splits option.splits)

lemmas run_simps = bindM_ext bindM_call bindM_call0 call_apply call0_apply ext_apply Let_def

lemma check_comm_connected [simp]: "comm s = Some c \<Longrightarrow> check_comm E s = (Inr True, s)"
  by (simp add: check_comm_def)

lemma check_comm_manual [simp]:
  "comm s = None \<Longrightarrow> \<not> auto_connect s \<Longrightarrow>
   check_comm E s = (Inr False, s\<lparr>out := out s @ [Log_error ''Not connected'']\<rparr>)"
  by (simp add: check_comm_def)

lemma bindM_check_comm_connected [simp]:
  "comm s = Some c \<Longrightarrow> bindM (check_comm E) g s = g True s"
  by (simp add: bindM_def)

lemma bindM_check_comm_manual [simp]:
  "comm s = None \<Longrightarrow> \<not> auto_connect s \<Longrightarrow>
   bindM (check_comm E) g s = g False (s\<lparr>out := out s @ [Log_error ''Not connected'']\<rparr>)"
  by (simp add: bindM_def)


lemma connect_comm:
  assumes "connect E host0 port0 user0 password0 s = (Inr (), s')"
  shows "comm s' = Some \<lparr>comm_host = (case host0 of None \<Rightarrow> host s | Some h \<Rightarrow> h),
                         comm_port = (case port0 of None \<Rightarrow> port s | Some p \<Rightarrow> p),
                         comm_user = (case user0 of None \<Rightarrow> user s | Some u \<Rightarrow> u),
                         comm_password = (case password0 of None \<Rightarrow> password s | Some p \<Rightarrow> p)\<rparr>"
    (is "_ = Some ?c")
proof -
  have pick: "\<And>x0 f g. bindM (case x0 of None \<Rightarrow> gets f | Some x \<Rightarrow> return x) g s
                 = g (case x0 of None \<Rightarrow> f s | Some x \<Rightarrow> x) s"
    by (simp split: option.splits)
  let ?rest = "bindM (modify (\<lambda>s. s\<lparr>comm := Some ?c\<rparr>)) (\<lambda>_.
               bindM (gets use_completer_db) (\<lambda>use_db.
                 if use_db
                 then bindM (modify (\<lambda>s. s\<lparr>completer_h := None\<rparr>)) (\<lambda>_. open_completer_db E)
                 else return ()))"
  have unfold: "connect E host0 port0 user0 password0 s
                  = bindM (call0 (Connect ?c) (PPComm_init E ?c)) (\<lambda>_. ?rest) s"
    by (simp add: connect_def pick Let_def)
  obtain r1 s1 where init: "call0 (Connect ?c) (PPComm_init E ?c) s = (r1, s1)"
    by (metis surj_pair)
  with assms unfold obtain u where r1: "r1 = Inr u" and rest: "?rest s1 = (Inr (), s')"
    by (cases r1) (simp_all add: bindM_def)
  let ?s2 = "s1\<lparr>comm := Some ?c\<rparr>"
  show ?thesis
  proof (cases "use_completer_db s1")
    case False
    with rest show ?thesis by auto
  next
    case True
    with rest have "open_completer_db E (?s2\<lparr>completer_h := None\<rparr>) = (Inr (), s')"
      by simp
    from keeps_commD [OF keeps_comm_open_completer_db this] show ?thesis by simp
  qed
qed


lemma connect_trace:
  assumes "connect E host0 port0 user0 password0 s = (r, s')"
  shows "\<exists>evs. out s' = out s @
           Connect \<lparr>comm_host = (case host0 of None \<Rightarrow> host s | Some h \<Rightarrow> h),
                    comm_port = (case port0 of None \<Rightarrow> port s | Some p \<Rightarrow> p),
                    comm_user = (case user0 of None \<Rightarrow> user s | Some u \<Rightarrow> u),
                    comm_password = (case password0 of None \<Rightarrow> password s | Some p \<Rightarrow> p)\<rparr> # evs"
    (is "\<exists>evs. _ = _ @ Connect ?c # evs")
proof -
  have pick: "\<And>x0 f g. bindM (case x0 of None \<Rightarrow> gets f | Some x \<Rightarrow> return x) g s
                 = g (case x0 of None \<Rightarrow> f s | Some x \<Rightarrow> x) s"
    by (simp split: option.splits)
  let ?rest = "bindM (modify (\<lambda>s. s\<lparr>comm := Some ?c\<rparr>)) (\<lambda>_.
               bindM (gets use_completer_db) (\<lambda>use_db.
                 if use_db
                 then bindM (modify (\<lambda>s. s\<lparr>completer_h := None\<rparr>)) (\<lambda>_. open_completer_db E)
                 else return ()))"
  have unfold: "connect E host0 port0 user0 password0 s
                  = bindM (call0 (Connect ?c) (PPComm_init E ?c)) (\<lambda>_. ?rest) s"
    by (simp add: connect_def pick Let_def)
  obtain r1 s1 where init: "call0 (Connect ?c) (PPComm_init E ?c) s = (r1, s1)"
    by (metis surj_pair)
  then have out1: "out s1 = out s @ [Connect ?c]"
    by (auto simp: call0_apply split: prod.splits option.splits)
  show ?thesis
  proof (cases r1)
    case (Inl e)
    with assms unfold init have "s' = s1" by (simp add: bindM_def)
    with out1 show ?thesis by simp
  next
    case (Inr u)
    with assms unfold init have rest: "?rest s1 = (r, s')" by (simp add: bindM_def)
    have "only_adds (\<lambda>e. True) ?rest"
      by (intro only_adds_bindM only_adds_modify only_adds_gets only_adds_if only_adds_return
            only_adds_mono [OF only_adds_open_completer_db]) simp_all
    from only_addsD [OF this rest] obtain evs where "out s' = out s1 @ evs" by blast
    with out1 show ?thesis by simp
  qed
qed

subsection \<open>Exceptions and the trace\<close>

lemma added_append [simp]: "out s' = out s @ evs \<Longrightarrow> added s s' = evs"
  by (simp add: added_def)

lemma added_self [simp]: "added s s = []"
  by (simp add: added_def)

lemma bindM_self_comm_Some [simp]: "comm s = Some c \<Longrightarrow> bindM self_comm g s = g c s"
  by (simp add: bindM_def)

lemma bindM_self_comm_None [simp]:
  "comm s = None \<Longrightarrow>
   bindM self_comm g s = (Inl (AttributeError ''NoneType object has no attribute''), s)"
  by (simp add: bindM_def)

lemma try_except_Inr: "body s = (Inr a, s') \<Longrightarrow> try_except body handler s = (Inr a, s')"
  by (simp add: try_except_def)

lemma try_except_caught:
  "body s = (Inl ex, s') \<Longrightarrow> handler ex = Some h \<Longrightarrow> try_except body handler s = h s'"
  by (simp add: try_except_def)

lemma try_except_passed:
  "body s = (Inl ex, s') \<Longrightarrow> handler ex = None \<Longrightarrow> try_except body handler s = (Inl ex, s')"
  by (simp add: try_except_def)

lemma except_GPError_GPError [simp]: "except_GPError (GPError m) = Some (print m)"
  by (simp add: except_GPError_def)

lemma except_GPError_other: "\<forall>m. ex \<noteq> GPError m \<Longrightarrow> except_GPError ex = None"
  by (cases ex) (simp_all add: except_GPError_def)

lemma try_except_GPError_never:
  "fst (try_except body except_GPError s) \<noteq> Inl (GPError m)"
proof (cases "body s")
  case (Pair r s')
  show ?thesis
  proof (cases r)
    case (Inr a)
    with Pair show ?thesis by (simp add: try_except_def)
  next
    case (Inl ex)
    show ?thesis
    proof (cases "\<exists>m'. ex = GPError m'")
      case True
      with Pair Inl show ?thesis by (auto simp: try_except_def)
    next
      case False
      with Pair Inl show ?thesis by (auto simp: try_except_def except_GPError_other)
    qed
  qed
qed

subsection \<open>Splitting a string\<close>

lemma split_takeWhile:
  "split c xs = takeWhile (\<lambda>x. x \<noteq> c) xs
                # (if c \<in> set xs then split c (tl (dropWhile (\<lambda>x. x \<noteq> c) xs)) else [])"
  by (induction xs) (auto split: list.splits)

lemma split_not_Nil [simp]: "split c xs \<noteq> []"
  by (subst split_takeWhile) simp

lemma take2_split:
  assumes "c \<in> set xs"
  shows "take 2 (split c xs) = [takeWhile (\<lambda>x. x \<noteq> c) xs,
                                takeWhile (\<lambda>x. x \<noteq> c) (tl (dropWhile (\<lambda>x. x \<noteq> c) xs))]"
proof -
  let ?rest = "tl (dropWhile (\<lambda>x. x \<noteq> c) xs)"
  have "split c xs = takeWhile (\<lambda>x. x \<noteq> c) xs # split c ?rest"
    using assms by (subst split_takeWhile) simp
  moreover have "\<exists>ys. split c ?rest = takeWhile (\<lambda>x. x \<noteq> c) ?rest # ys"
    by (subst split_takeWhile) simp
  ultimately show ?thesis by (auto simp add: numeral_2_eq_2)
qed

subsection \<open>Commands without a connection\<close>

lemma unconnected_commands_return:
  assumes "comm s = None" and "\<not> auto_connect s"
  shows "gpascii E p1 s = (Inr (), s\<lparr>out := out s @ [Log_error ''Not connected'']\<rparr>)"
    and "get_var E p2 s = (Inr (), s\<lparr>out := out s @ [Log_error ''Not connected'']\<rparr>)"
    and "set_var E p3 s = (Inr (), s\<lparr>out := out s @ [Log_error ''Not connected'']\<rparr>)"
    and "v_cmd E p4 s = (Inr (), s\<lparr>out := out s @ [Log_error ''Not connected'']\<rparr>)"
    and "command \<noteq> [] \<Longrightarrow>
         shell_cmd E command s = (Inr (), s\<lparr>out := out s @ [Log_error ''Not connected'']\<rparr>)"
    and "gather E (Inr (Some a6)) s = (Inr (), s\<lparr>out := out s @ [Log_error ''Not connected'']\<rparr>)"
    and "gather_save E (Inr (Some a7)) s
           = (Inr (), s\<lparr>out := out s @ [Log_error ''Not connected'']\<rparr>)"
    and "servo_copy E (Inr (Some a8)) s
           = (Inr (), s\<lparr>out := out s @ [Log_error ''Not connected'']\<rparr>)"
    and "ramp E (Inr (Some ())) s = (Inr (), s\<lparr>out := out s @ [Log_error ''Not connected'']\<rparr>)"
    and "pyramid E (Inr (Some ())) s
           = (Inr (), s\<lparr>out := out s @ [Log_error ''Not connected'']\<rparr>)"
  using assms
  by (simp_all add: gpascii_def get_var_def set_var_def v_cmd_def shell_cmd_def gather_def
        gather_save_def servo_copy_def ramp_def pyramid_def custom_tune_def)

text \<open>The \<^verbatim>\<open>search\<close> command never adds a request, connected or not.\<close>

lemma search_makes_no_request: "only_adds (\<lambda>e. \<not> is_Device e) (search E parsed)"
  unfolding search_def
  by (intro only_adds_bindM only_adds_gets only_adds_case_option only_adds_print
        only_adds_case_sum only_adds_raise only_adds_return only_adds_for_each)
     (auto split: prod.splits intro!: only_adds_print)

subsection \<open>Gathering\<close>

lemma fix_addr_suffix: "fix_addr E cpl w a = Inr b \<Longrightarrow> suffix ''.a'' b"
  by (auto simp: fix_addr_def split: sum.splits if_splits intro: suffixI)

lemma fix_addr_no_completer:
  "fix_addr E None w a = Inr (if suffix ''.a'' a then a else a @ ''.a'')"
  by (simp add: fix_addr_def)

lemma map_exn_Inr: "map_exn f xs = Inr ys \<Longrightarrow> list_all2 (\<lambda>x y. f x = Inr y) xs ys"
  by (induction xs arbitrary: ys) (auto split: sum.splits)

lemma gather_addr_Inr:
  assumes "gather_addr E cpl w addresses = Inr addr"
  shows "\<exists>fixed. list_all2 (\<lambda>a b. fix_addr E cpl w a = Inr b) addresses fixed
           \<and> addr = (if ''Sys.ServoCount.a'' \<in> set fixed then fixed
                      else ''Sys.ServoCount.a'' # fixed)"
  using assms
  by (auto simp: gather_addr_def split: sum.splits if_splits dest!: map_exn_Inr)

lemma list_all2_suffix:
  "list_all2 (\<lambda>a b. fix_addr E cpl w a = Inr b) xs ys \<Longrightarrow> \<forall>b\<in>set ys. suffix ''.a'' b"
  by (induction rule: list_all2_induct) (auto dest: fix_addr_suffix)

lemma gather_request:
  assumes "Device cm (Gather_and_plot addr d p) \<in> set (added s (snd (gather E parsed s)))"
  shows "\<exists>args s1. parsed = Inr (Some args) \<and> check_comm E s = (Inr True, s1)
            \<and> gather_addr E (completer_h s1) (world s1) (gather_addresses args) = Inr addr"
proof -
  obtain r1 s1 where chk: "check_comm E s = (r1, s1)" by (metis surj_pair)
  from only_addsD [OF only_adds_check_comm chk] obtain evs1
    where out1: "out s1 = out s @ evs1" and quiet: "list_all (\<lambda>e. \<not> is_Device e) evs1"
    by blast
  from assms obtain args where parsed: "parsed = Inr (Some args)"
    by (cases parsed) (auto simp: gather_def split: option.splits)
  let ?fixed = "gather_addr E (completer_h s1) (world s1) (gather_addresses args)"
  have ok: "r1 = Inr True"
  proof (rule ccontr)
    assume "r1 \<noteq> Inr True"
    then have "snd (gather E parsed s) = s1"
      using chk parsed by (cases r1) (auto simp: gather_def bindM_def)
    with assms out1 quiet show False by (auto simp: list_all_iff)
  qed
  show ?thesis
  proof (cases ?fixed)
    case (Inl e)
    with chk ok parsed have "snd (gather E parsed s) = s1"
      by (simp add: gather_def bindM_def [where f = "check_comm E"])
    with assms out1 quiet show ?thesis by (auto simp: list_all_iff)
  next
    case (Inr addr')
    let ?ev = "Device (comm s1) (Gather_and_plot addr' (gather_duration args) (gather_period args))"
    let ?res = "gather_gather_and_plot E (comm s1) addr' (gather_duration args)
                  (gather_period args) (world s1)"
    from chk ok parsed Inr
    have "snd (gather E parsed s) = s1\<lparr>world := snd ?res, out := out s1 @ [?ev]\<rparr>"
      by (cases ?res)
         (auto simp: gather_def bindM_def [where f = "check_comm E"] call0_apply
               split: option.splits)
    moreover from out1
    have "added s (s1\<lparr>world := snd ?res, out := out s1 @ [?ev]\<rparr>) = evs1 @ [?ev]"
      by simp
    ultimately have "addr = addr'"
      using assms quiet by (auto simp: list_all_iff)
    with chk ok parsed Inr show ?thesis by simp
  qed
qed

lemma except_KeyError_KeyError [simp]:
  "except_KeyError (KeyError m) = Some (bindM (logger_error (exn_str (KeyError m))) (\<lambda>_. return None))"
  by (simp add: except_KeyError_def)

lemma except_KeyError_other: "\<forall>m. ex \<noteq> KeyError m \<Longrightarrow> except_KeyError ex = None"
  by (cases ex) (simp_all add: except_KeyError_def)

lemma get_gather_results_missing:
  assumes "gather_read_settings_file E (comm s) settings_file (world s) = (Inr settings, w1)"
      and "map_of settings ''gather.addr'' = None"
  shows "get_gather_results E settings_file verbose s =
           (Inl (KeyError (''gather.addr: Unable to read addresses from settings file (''
                           @ str_opt settings_file @ '')'')),
            s\<lparr>world := w1,
               out := out s @ (if verbose then [Print ''Reading gather settings...''] else [])
                      @ [Device (comm s) (Read_settings_file settings_file),
                         Print_settings settings]\<rparr>)"
  using assms by (simp add: get_gather_results_def bindM_call)

lemma get_gather_results_present:
  assumes "gather_read_settings_file E (comm s) settings_file (world s) = (Inr settings, w1)"
      and "map_of settings ''gather.addr'' = Some addresses"
      and "gather_get_gather_results E (comm s) addresses w1 = (Inr data, w2)"
  shows "get_gather_results E settings_file verbose s =
           (Inr (settings, data),
            s\<lparr>world := w2,
               out := out s @ (if verbose then [Print ''Reading gather settings...''] else [])
                      @ [Device (comm s) (Read_settings_file settings_file)]
                      @ (if verbose then [Print ''Reading gather data... ''] else [])
                      @ [Device (comm s) (Get_gather_results addresses)]
                      @ (if verbose then [Print ''done''] else [])\<rparr>)"
  using assms by (simp add: get_gather_results_def bindM_call)

lemma gather_save_KeyError:
  assumes "comm s = Some c"
      and "get_gather_results E (gather_save_settings_file args) True s = (Inl (KeyError m), s1)"
  shows "gather_save E (Inr (Some args)) s =
           (Inr (), s1\<lparr>out := out s1 @ [Log_error (exn_str (KeyError m))]\<rparr>)"
proof -
  let ?body = "bindM (get_gather_results E (gather_save_settings_file args) True)
                 (\<lambda>r. return (Some r))"
  have "?body s = (Inl (KeyError m), s1)"
    using assms(2) by (rule bindM_Inl)
  from try_except_caught [where body = ?body and s = s and handler = except_KeyError,
         OF this except_KeyError_KeyError]
  have "try_except ?body except_KeyError s
          = (Inr None, s1\<lparr>out := out s1 @ [Log_error (exn_str (KeyError m))]\<rparr>)"
    by (simp del: exn_str.simps)
  then show ?thesis
    using assms(1)
    by (simp add: gather_save_def bindM_def [where f = "try_except ?body except_KeyError"]
             del: exn_str.simps)
qed

lemma gather_save_other_exception:
  assumes "comm s = Some c"
      and "get_gather_results E (gather_save_settings_file args) True s = (Inl e, s2)"
      and "\<forall>m. e \<noteq> KeyError m"
  shows "gather_save E (Inr (Some args)) s = (Inl e, s2)"
proof -
  let ?body = "bindM (get_gather_results E (gather_save_settings_file args) True)
                 (\<lambda>r. return (Some r))"
  have "?body s = (Inl e, s2)"
    using assms(2) by (rule bindM_Inl)
  from try_except_passed [where body = ?body and s = s and handler = except_KeyError,
         OF this except_KeyError_other [OF assms(3)]]
  have "try_except ?body except_KeyError s = (Inl e, s2)" .
  then show ?thesis
    using assms(1)
    by (simp add: gather_save_def bindM_def [where f = "try_except ?body except_KeyError"])
qed

subsection \<open>Reading a list of variables\<close>

lemma get_var_values_from_step:
  "get_var_values_from E (Some c) cb (var # vars) ret cs s =
     (let s1 = s\<lparr>world := snd (gp_get_variable E c var (world s)),
                 out := out s @ [Device (Some c) (Get_variable var)]\<rparr>
      in case fst (gp_get_variable E c var (world s)) of
           Inl ex \<Rightarrow>
             if \<exists>m. ex = GPError m \<or> ex = TimeoutError m
             then get_var_values_from E (Some c) cb vars
                    (ret @ [Some (''Error: '' @ exn_str ex)]) cs s1
             else (Inl ex, cs, s1)
         | Inr value \<Rightarrow>
             (case cb of
                None \<Rightarrow> get_var_values_from E (Some c) cb vars (ret @ [Some value]) cs s1
              | Some f \<Rightarrow>
                  get_var_values_from E (Some c) cb vars
                    (ret @ [case fst (f var value cs) of Inl ex \<Rightarrow> Some value | Inr r \<Rightarrow> r])
                    (snd (f var value cs)) s1))"
  by (cases "gp_get_variable E c var (world s)")
     (auto simp: call_apply Let_def split: sum.splits exn.splits option.splits prod.splits)

lemma get_var_values_from_no_comm:
  "get_var_values_from E None cb (var # vars) ret cs s =
     (Inl (AttributeError ''NoneType object has no attribute gpascii''), cs, s)"
  by simp

lemmas [simp del] = get_var_values_from.simps(2)

lemma get_var_values_from_acc:
  "get_var_values_from E cm cb vars ret cs s = (Inr vals, cs', s') \<Longrightarrow>
   \<exists>new. vals = ret @ new \<and> length new = length vars"
proof (induction vars arbitrary: ret cs s)
  case Nil
  then show ?case by simp
next
  case (Cons var vars)
  show ?case
  proof (cases cm)
    case None
    with Cons.prems show ?thesis by (simp add: get_var_values_from_no_comm)
  next
    case (Some c)
    from Cons.prems [unfolded Some get_var_values_from_step Let_def]
    obtain x cs1 s1 where "get_var_values_from E (Some c) cb vars (ret @ [x]) cs1 s1 = (Inr vals, cs', s')"
      by (auto split: sum.splits if_splits option.splits)
    from Cons.IH [OF this [folded Some]] show ?thesis by auto
  qed
qed

lemma get_var_values_from_append_Some:
  "get_var_values_from E (Some c) cb (xs @ ys) ret cs s =
     (case get_var_values_from E (Some c) cb xs ret cs s of
        (Inl e, cs1, s1) \<Rightarrow> (Inl e, cs1, s1)
      | (Inr ret1, cs1, s1) \<Rightarrow> get_var_values_from E (Some c) cb ys ret1 cs1 s1)"
proof (induction xs arbitrary: ret cs s)
  case Nil
  then show ?case by simp
next
  case (Cons x xs)
  show ?case
    unfolding append_Cons get_var_values_from_step Let_def Cons.IH
    by (simp split: sum.split option.split)
qed

lemma get_var_values_from_total:
  assumes "\<forall>var w e w'. gp_get_variable E c var w = (Inl e, w') \<longrightarrow>
             (\<exists>m. e = GPError m \<or> e = TimeoutError m)"
  shows "\<exists>vals cs' s'. get_var_values_from E (Some c) cb vars ret cs s = (Inr vals, cs', s')"
proof (induction vars arbitrary: ret cs s)
  case Nil
  then show ?case by simp
next
  case (Cons var vars)
  obtain r w' where rd: "gp_get_variable E c var (world s) = (r, w')" by (metis surj_pair)
  show ?case
  proof (cases r)
    case (Inl e)
    with rd assms have "\<exists>m. e = GPError m \<or> e = TimeoutError m" by blast
    with rd Inl show ?thesis
      by (simp add: get_var_values_from_step Let_def Cons.IH)
  next
    case (Inr v)
    with rd Cons.IH show ?thesis
      by (cases cb) (simp_all add: get_var_values_from_step Let_def)
  qed
qed


lemma print_var_values_returns:
  "fst (print_var_values E cm vars cb cs s) = fst (get_var_values E cm vars cb cs s)"
  by (simp add: print_var_values_def split: prod.splits sum.splits)

subsection \<open>The polling loop\<close>







text \<open>The loop is still polling after \<open>n\<close> iterations exactly when none of them raised.\<close>

lemma monitor_loop_None_iff:
  "monitor_loop E cm variables cb n m = None
     \<longleftrightarrow> (\<exists>m'. monitor_after E cm variables cb n m = Some m')"
  by (induction n arbitrary: m) (auto split: sum.splits)

subsection \<open>The status filters\<close>

lemma cstatus_got_value_eq: "cstatus_got_value = mstatus_got_value"
  by (intro ext) (simp add: cstatus_got_value_def mstatus_got_value_def)

lemma mstatus_got_value_filtered:
  assumes "\<not> args_all" and "last (split CHR ''.'' vname) \<notin> set args_additional"
      and "motor_normal (last (split CHR ''.'' vname)) = Some normal_value"
  shows "mstatus_got_value int_of args_all args_additional motor_normal vname v last_values =
           (case int_of v of
              Inl e \<Rightarrow> (Inl e, last_values)
            | Inr n \<Rightarrow>
                (if n = normal_value \<and>
                    (case last_values (last (split CHR ''.'' vname)) of None \<Rightarrow> None | Some r \<Rightarrow> r) = None
                 then (Inr None, last_values(last (split CHR ''.'' vname) \<mapsto> None))
                 else (Inr (Some v), last_values(last (split CHR ''.'' vname) \<mapsto> Some v))))"
  using assms by (simp add: mstatus_got_value_def Let_def split: sum.splits)

lemma mstatus_got_value_other_name:
  assumes "last (split CHR ''.'' vname) \<noteq> k"
  shows "snd (mstatus_got_value int_of args_all args_additional motor_normal vname v last_values) k
           = last_values k"
  using assms
  by (auto simp: mstatus_got_value_def Let_def split: sum.splits option.splits)

lemma got_value_calls_length:
  "got_value_calls cb calls lv0 = (results, lv) \<Longrightarrow> length results = length calls"
  by (induction calls arbitrary: lv0 results) (auto split: prod.splits)

lemma got_value_calls_last_value:
  assumes "\<not> args_all" and "k \<notin> set args_additional" and "motor_normal k = Some normal_value"
      and "got_value_calls (mstatus_got_value int_of args_all args_additional motor_normal)
             calls lv0 = (results, lv)"
  shows "(case lv k of None \<Rightarrow> None | Some r \<Rightarrow> r) \<noteq> None \<longleftrightarrow>
           (case lv0 k of None \<Rightarrow> None | Some r \<Rightarrow> r) \<noteq> None
           \<or> (\<exists>c r x. (c, r) \<in> set (zip calls results) \<and> last (split CHR ''.'' (fst c)) = k
                       \<and> r = Inr (Some x))"
  using assms(4)
proof (induction calls arbitrary: lv0 results)
  case Nil
  then show ?case by simp
next
  case (Cons call calls)
  obtain vname v where call: "call = (vname, v)" by (cases call)
  let ?cb = "mstatus_got_value int_of args_all args_additional motor_normal"
  obtain r lv1 where step: "?cb vname v lv0 = (r, lv1)" by (metis surj_pair)
  obtain rs where rest: "got_value_calls ?cb calls lv1 = (rs, lv)" and results: "results = r # rs"
    using Cons.prems call step by (auto split: prod.splits)
  have one: "(case lv1 k of None \<Rightarrow> None | Some r \<Rightarrow> r) \<noteq> None \<longleftrightarrow>
               (case lv0 k of None \<Rightarrow> None | Some r \<Rightarrow> r) \<noteq> None
               \<or> (last (split CHR ''.'' vname) = k \<and> (\<exists>x. r = Inr (Some x)))"
  proof (cases "last (split CHR ''.'' vname) = k")
    case False
    from mstatus_got_value_other_name [OF False, of int_of args_all args_additional motor_normal v lv0]
      step False
    show ?thesis by simp
  next
    case True
    from assms(1-3) True have
      "\<not> args_all" "last (split CHR ''.'' vname) \<notin> set args_additional"
      "motor_normal (last (split CHR ''.'' vname)) = Some normal_value"
      by simp_all
    from mstatus_got_value_filtered [where motor_normal = motor_normal and vname = vname
           and int_of = int_of and v = v and last_values = lv0, OF this] step True
    show ?thesis by (auto split: sum.splits if_splits)
  qed
  have ex: "(\<exists>c r' x. (c, r') \<in> set (zip (call # calls) results)
                      \<and> last (split CHR ''.'' (fst c)) = k \<and> r' = Inr (Some x))
            \<longleftrightarrow> (last (split CHR ''.'' vname) = k \<and> (\<exists>x. r = Inr (Some x)))
                \<or> (\<exists>c r' x. (c, r') \<in> set (zip calls rs)
                       \<and> last (split CHR ''.'' (fst c)) = k \<and> r' = Inr (Some x))"
    unfolding results call by (auto, blast)
  show ?case
    unfolding ex using Cons.IH [OF rest] one by blast
qed

subsection \<open>Running the simulated controller\<close>

lemma sim_env_simps [simp]:
  "PPComm_init sim_env = (\<lambda>c w. (None, w))"
  "path_exists sim_env = (\<lambda>p w. False)"
  "unlink sim_env = (\<lambda>p w. w)"
  "start_completer_from_db sim_env = (\<lambda>db gp w. (Inr None, w))"
  "start_completer_from_mysql sim_env = (\<lambda>ip1 ip2 db gp w. (Inr (Some (Completer gp)), w))"
  "completer_check sim_env = (\<lambda>k addr w. Inr addr)"
  "completer_search sim_env = (\<lambda>k var text w. Inr [])"
  "gp_get_variable sim_env = sim_get_variable"
  "gp_set_variable sim_env = sim_set_variable"
  "gp_send_line sim_env = (\<lambda>c line w. (None, Suc w))"
  "gp_read_timeout sim_env = (\<lambda>c t w. (([], Some (TimeoutError ''timed out'')), Suc w))"
  "comm_shell_command sim_env = (\<lambda>c cmd w. (Inr [], Suc w))"
  "gather_gather_and_plot sim_env = (\<lambda>cm addr d p w. (None, Suc w))"
  "gather_read_settings_file sim_env = (\<lambda>cm f w. (Inr (sim_settings f), Suc w))"
  "gather_get_gather_results sim_env = (\<lambda>cm addr w. (Inr [[''0'', ''1.5'']], Suc w))"
  "gather_gather_data_to_file sim_env = (\<lambda>f addr data delim w. (None, w))"
  "tune_copy_settings sim_env = (\<lambda>c m1 m2 k w. (None, Suc w))"
  "tune_tune_range sim_env = (\<lambda>c fn rv vals w. (Inr (None, []), Suc w))"
  "tune_custom_tune sim_env = (\<lambda>cm fn w. (None, Suc w))"
  "tune_script_path sim_env = (\<lambda>script. ''tune/'' @ script)"
  "np_arange sim_env = (\<lambda>lo hi st. [])"
  by (simp_all add: sim_env_def)

lemma sim_connect_run:
  "connect sim_env None (Some 2222) None None sim_st =
     (Inr (), sim_st\<lparr>comm := Some (sim_comm\<lparr>comm_port := 2222\<rparr>),
                      completer_h := Some (Completer (Some (sim_comm\<lparr>comm_port := 2222\<rparr>))),
                      user_ns_ppmac := Some (Completer (Some (sim_comm\<lparr>comm_port := 2222\<rparr>))),
                      out := [Connect (sim_comm\<lparr>comm_port := 2222\<rparr>),
                              Print ''Completer loaded into namespace. Try ppmac.[tab]'']\<rparr>)"
  by (simp add: connect_def open_completer_db_def load_from_db_def load_from_mysql_def
        run_simps sim_st_def sim_comm_def)

lemma sim_check_comm_connected:
  "check_comm sim_env sim_connected = (Inr True, sim_connected)"
  by (simp add: sim_connected_def)

lemma sim_connected_simps [simp]:
  "comm sim_connected = Some sim_comm" "world sim_connected = 0" "out sim_connected = []"
  "completer_h sim_connected = None"
  by (simp_all add: sim_connected_def sim_st_def)

lemma sim_v_var_value:
  "v_var_value \<lparr>v_variable = ''Motor[1].JogSpeed=32=x'', v_value = None\<rparr>
     = Inr (''Motor[1].JogSpeed'', Some ''32'')"
  by (simp add: v_var_value_def)


lemma sim_gather_run:
  "gather sim_env
     (Inr (Some \<lparr>gather_duration = 1, gather_period = 1,
                 gather_addresses = [''X'', ''Sys.ServoCount'']\<rparr>)) sim_connected
   = (Inr (), sim_connected\<lparr>world := 1,
        out := [Device (Some sim_comm) (Gather_and_plot [''X.a'', ''Sys.ServoCount.a''] 1 1)]\<rparr>)"
  by (simp add: gather_def gather_addr_def fix_addr_def call0_apply suffix_def)

lemma sim_gather_insert_run:
  "gather sim_env
     (Inr (Some \<lparr>gather_duration = 1, gather_period = 1,
                 gather_addresses = [''Motor[1].ActPos'']\<rparr>)) sim_connected
   = (Inr (), sim_connected\<lparr>world := 1,
        out := [Device (Some sim_comm)
                  (Gather_and_plot [''Sys.ServoCount.a'', ''Motor[1].ActPos.a''] 1 1)]\<rparr>)"
  by (simp add: gather_def gather_addr_def fix_addr_def call0_apply suffix_def)

text \<open>
  A whole run of \<^verbatim>\<open>monitor_variables\<close>: the initial report, one iteration that
  prints the change of \<^verbatim>\<open>tick\<close>, and the interrupt in the next read, after which the
  change set is printed and the function returns.
\<close>

lemma sim_monitor_variables_run:
  "monitor_variables sim_env [''tick'', ''a'', ''stop''] None None True True (Suc (Suc (Suc 0))) () sim_connected
   = Some (Inr (), (),
       sim_connected\<lparr>world := 9,
         out := [Device (Some sim_comm) (Get_variable ''tick''),
                 Device (Some sim_comm) (Get_variable ''a''),
                 Device (Some sim_comm) (Get_variable ''stop''),
                 Print_var ''tick'' ''0'', Print_var ''a'' ''7'', Print_var ''stop'' ''7'',
                 Device (Some sim_comm) (Get_variable ''tick''),
                 Device (Some sim_comm) (Get_variable ''a''),
                 Device (Some sim_comm) (Get_variable ''stop''),
                 Print_var ''tick'' ''1'',
                 Device (Some sim_comm) (Get_variable ''tick''),
                 Device (Some sim_comm) (Get_variable ''a''),
                 Device (Some sim_comm) (Get_variable ''stop''),
                 Print ''Variables changed:'', Print ''tick'']\<rparr>)"
  by (simp add: monitor_variables_def monitor_iteration_def get_var_values_def
        get_var_values_from.simps call_apply sim_get_variable_def sim_connected_def sim_st_def
        Let_def)

section \<open>The claims\<close>

subsection \<open>C8: connect fills in the configured values\<close>

text \<open>
  C8. When \<^verbatim>\<open>connect\<close> returns, each of \<^verbatim>\<open>host\<close>, \<^verbatim>\<open>port\<close>, \<^verbatim>\<open>user\<close> and
  \<^verbatim>\<open>password\<close> that was \<^verbatim>\<open>None\<close> has been replaced by the stored value of the same
  name, the connection was opened with exactly these four values (the first event the
  call adds to the trace), and \<^verbatim>\<open>self.comm\<close> is that connection.
\<close>

theorem connect_substitutes_stored_values:
  assumes "connect E host0 port0 user0 password0 s = (Inr (), s')"
  shows "comm s' = Some \<lparr>comm_host = (case host0 of None \<Rightarrow> host s | Some h \<Rightarrow> h),
                         comm_port = (case port0 of None \<Rightarrow> port s | Some p \<Rightarrow> p),
                         comm_user = (case user0 of None \<Rightarrow> user s | Some u \<Rightarrow> u),
                         comm_password = (case password0 of None \<Rightarrow> password s | Some p \<Rightarrow> p)\<rparr>
       \<and> (\<exists>evs. out s' = out s @
             Connect \<lparr>comm_host = (case host0 of None \<Rightarrow> host s | Some h \<Rightarrow> h),
                      comm_port = (case port0 of None \<Rightarrow> port s | Some p \<Rightarrow> p),
                      comm_user = (case user0 of None \<Rightarrow> user s | Some u \<Rightarrow> u),
                      comm_password = (case password0 of None \<Rightarrow> password s | Some p \<Rightarrow> p)\<rparr> # evs)"
  using connect_comm [OF assms] connect_trace [OF assms] by simp

theorem connect_substitutes_stored_values_witness:
  "connect sim_env None (Some 2222) None None sim_st =
     (Inr (), sim_st\<lparr>comm := Some (sim_comm\<lparr>comm_port := 2222\<rparr>),
                      completer_h := Some (Completer (Some (sim_comm\<lparr>comm_port := 2222\<rparr>))),
                      user_ns_ppmac := Some (Completer (Some (sim_comm\<lparr>comm_port := 2222\<rparr>))),
                      out := [Connect (sim_comm\<lparr>comm_port := 2222\<rparr>),
                              Print ''Completer loaded into namespace. Try ppmac.[tab]'']\<rparr>)
   \<and> comm (sim_st\<lparr>comm := Some (sim_comm\<lparr>comm_port := 2222\<rparr>),
                      completer_h := Some (Completer (Some (sim_comm\<lparr>comm_port := 2222\<rparr>))),
                      user_ns_ppmac := Some (Completer (Some (sim_comm\<lparr>comm_port := 2222\<rparr>))),
                      out := [Connect (sim_comm\<lparr>comm_port := 2222\<rparr>),
                              Print ''Completer loaded into namespace. Try ppmac.[tab]'']\<rparr>)
     = Some \<lparr>comm_host = ''10.0.0.98'', comm_port = 2222, comm_user = ''root'',
             comm_password = ''deltatau''\<rparr>"
  using connect_substitutes_stored_values [OF sim_connect_run] sim_connect_run
  by (simp add: sim_st_def)

subsection \<open>C1: commands without a connection\<close>

text \<open>
  C1. With no connection and \<^verbatim>\<open>auto_connect\<close> off, a command should return without
  a request. \<^verbatim>\<open>check_comm\<close> logs and answers \<open>False\<close>, and \<^verbatim>\<open>custom_tune\<close> then returns
  \<^verbatim>\<open>None\<close>; the \<^verbatim>\<open>tune_range\<close> command unpacks that result into two variables, so
  whenever its values are given it does not return: it raises \<^verbatim>\<open>TypeError\<close>, after
  the log record and without a request.
\<close>

theorem tune_range_unconnected_raises:
  assumes "comm s = None" and "\<not> auto_connect s" and "tune_range_values args = Some vals"
  shows "tune_range E (Inr (Some args)) s =
           (Inl (TypeError ''NoneType object is not iterable''),
            s\<lparr>out := out s @ [Log_error ''Not connected'']\<rparr>)"
  using assms by (simp add: tune_range_def custom_tune_def)

theorem tune_range_unconnected_raises_witness:
  "comm sim_manual = None \<and> \<not> auto_connect sim_manual
   \<and> tune_range_values
        \<lparr>tune_range_script = ''ramp.txt'', tune_range_variable = ''Kp'',
         tune_range_values = Some [1], tune_range_low = None, tune_range_high = None,
         tune_range_step = None\<rparr> = Some [1]
   \<and> tune_range sim_env
        (Inr (Some \<lparr>tune_range_script = ''ramp.txt'', tune_range_variable = ''Kp'',
                    tune_range_values = Some [1], tune_range_low = None, tune_range_high = None,
                    tune_range_step = None\<rparr>)) sim_manual
       = (Inl (TypeError ''NoneType object is not iterable''),
          sim_manual\<lparr>out := out sim_manual @ [Log_error ''Not connected'']\<rparr>)"
proof -
  have c: "comm sim_manual = None" and a: "\<not> auto_connect sim_manual"
    by (simp_all add: sim_manual_def sim_st_def)
  have v: "tune_range_values
             \<lparr>tune_range_script = ''ramp.txt'', tune_range_variable = ''Kp'',
              tune_range_values = Some [1], tune_range_low = None, tune_range_high = None,
              tune_range_step = None\<rparr> = Some [1]"
    by simp
  from tune_range_unconnected_raises [OF c a v, of sim_env] c a v show ?thesis
    by simp
qed

subsection \<open>C7: a GPError of the device is caught\<close>

text \<open>
  C7. In \<^verbatim>\<open>get_var\<close>, \<^verbatim>\<open>set_var\<close> and \<^verbatim>\<open>v\<close>, once the connection check has
  passed, a \<^verbatim>\<open>GPError\<close> raised by \<^verbatim>\<open>get_variable\<close> or \<^verbatim>\<open>set_variable\<close> is caught:
  the command prints the exception after the request and returns normally. So no
  \<^verbatim>\<open>GPError\<close> leaves any of the three commands, whatever the parser returned (short
  of the parser raising one itself).
\<close>

theorem gperror_is_caught_and_printed:
  assumes "check_comm E s = (Inr True, s1)" and "comm s1 = Some c"
  shows "(\<forall>variable m w'.
            gp_get_variable E c variable (world s1) = (Inl (GPError m), w') \<longrightarrow>
            get_var E (Inr (Some variable)) s =
              (Inr (), s1\<lparr>world := w',
                         out := out s1 @ [Device (Some c) (Get_variable variable), Print m]\<rparr>))
       \<and> (\<forall>args m w'.
            gp_set_variable E c (set_var_variable args) (set_var_value args) (world s1)
              = (Inl (GPError m), w') \<longrightarrow>
            set_var E (Inr (Some args)) s =
              (Inr (), s1\<lparr>world := w',
                         out := out s1 @ [Device (Some c)
                                   (Set_variable (set_var_variable args) (set_var_value args)),
                                 Print m]\<rparr>))
       \<and> (\<forall>args var m w'.
            v_var_value args = Inr (var, None) \<and>
            gp_get_variable E c var (world s1) = (Inl (GPError m), w') \<longrightarrow>
            v_cmd E (Inr (Some args)) s =
              (Inr (), s1\<lparr>world := w',
                         out := out s1 @ [Device (Some c) (Get_variable var), Print m]\<rparr>))
       \<and> (\<forall>args var val m w'.
            v_var_value args = Inr (var, Some val) \<and>
            gp_set_variable E c var val (world s1) = (Inl (GPError m), w') \<longrightarrow>
            v_cmd E (Inr (Some args)) s =
              (Inr (), s1\<lparr>world := w',
                         out := out s1 @ [Device (Some c) (Set_variable var val), Print m]\<rparr>))
       \<and> (\<forall>parsed m. (\<forall>m'. parsed \<noteq> Inl (GPError m')) \<longrightarrow>
            fst (get_var E parsed s) \<noteq> Inl (GPError m))
       \<and> (\<forall>parsed m. (\<forall>m'. parsed \<noteq> Inl (GPError m')) \<longrightarrow>
            fst (set_var E parsed s) \<noteq> Inl (GPError m))
       \<and> (\<forall>parsed m. (\<forall>m'. parsed \<noteq> Inl (GPError m')) \<longrightarrow>
            fst (v_cmd E parsed s) \<noteq> Inl (GPError m))"
proof -
  note chk = bindM_Inr [where f = "check_comm E", OF assms(1)]
  have get: "get_var E (Inr (Some variable)) s =
              (Inr (), s1\<lparr>world := w',
                         out := out s1 @ [Device (Some c) (Get_variable variable), Print m]\<rparr>)"
    if "gp_get_variable E c variable (world s1) = (Inl (GPError m), w')" for variable m w'
    using that assms(2)
    by (simp add: get_var_def chk try_except_def bindM_call)
  have set: "set_var E (Inr (Some args)) s =
              (Inr (), s1\<lparr>world := w',
                         out := out s1 @ [Device (Some c)
                                   (Set_variable (set_var_variable args) (set_var_value args)),
                                 Print m]\<rparr>)"
    if "gp_set_variable E c (set_var_variable args) (set_var_value args) (world s1)
          = (Inl (GPError m), w')" for args m w'
    using that assms(2)
    by (simp add: set_var_def chk try_except_def bindM_call)
  have vget: "v_cmd E (Inr (Some args)) s =
              (Inr (), s1\<lparr>world := w',
                         out := out s1 @ [Device (Some c) (Get_variable var), Print m]\<rparr>)"
    if "v_var_value args = Inr (var, None)"
       "gp_get_variable E c var (world s1) = (Inl (GPError m), w')" for args var m w'
    using that assms(2)
    by (simp add: v_cmd_def chk try_except_def bindM_call)
  have vset: "v_cmd E (Inr (Some args)) s =
              (Inr (), s1\<lparr>world := w',
                         out := out s1 @ [Device (Some c) (Set_variable var val), Print m]\<rparr>)"
    if "v_var_value args = Inr (var, Some val)"
       "gp_set_variable E c var val (world s1) = (Inl (GPError m), w')" for args var val m w'
    using that assms(2)
    by (simp add: v_cmd_def chk try_except_def bindM_call)
  have never_get: "fst (get_var E parsed s) \<noteq> Inl (GPError m)"
    if "\<forall>m'. parsed \<noteq> Inl (GPError m')" for parsed m
    using that
    by (auto simp: get_var_def chk try_except_GPError_never split: sum.splits option.splits)
  have never_set: "fst (set_var E parsed s) \<noteq> Inl (GPError m)"
    if "\<forall>m'. parsed \<noteq> Inl (GPError m')" for parsed m
    using that
    by (auto simp: set_var_def chk try_except_GPError_never split: sum.splits option.splits)
  have never_v: "fst (v_cmd E parsed s) \<noteq> Inl (GPError m)"
    if "\<forall>m'. parsed \<noteq> Inl (GPError m')" for parsed m
    using that
    by (auto simp: v_cmd_def v_var_value_def chk try_except_GPError_never
             split: sum.splits option.splits list.splits if_splits)
  from get set vget vset never_get never_set never_v show ?thesis by blast
qed


theorem gperror_is_caught_and_printed_witness:
  "check_comm sim_env sim_connected = (Inr True, sim_connected)
   \<and> comm sim_connected = Some sim_comm
   \<and> gp_get_variable sim_env sim_comm ''bad'' (world sim_connected)
       = (Inl (GPError ''ILLEGAL CMD''), 1)
   \<and> get_var sim_env (Inr (Some ''bad'')) sim_connected
       = (Inr (), sim_connected\<lparr>world := 1,
            out := out sim_connected @ [Device (Some sim_comm) (Get_variable ''bad''),
                                        Print ''ILLEGAL CMD'']\<rparr>)"
proof -
  have chk: "check_comm sim_env sim_connected = (Inr True, sim_connected)"
    by (rule sim_check_comm_connected)
  have cm: "comm sim_connected = Some sim_comm" by simp
  have rd: "gp_get_variable sim_env sim_comm ''bad'' (world sim_connected)
              = (Inl (GPError ''ILLEGAL CMD''), 1)"
    by (simp add: sim_get_variable_def)
  note caught = gperror_is_caught_and_printed [OF chk cm, THEN conjunct1, rule_format, OF rd]
  from chk cm rd caught show ?thesis by (intro conjI)
qed

subsection \<open>C6: the v command\<close>

text \<open>
  C6. In the \<^verbatim>\<open>v\<close> command, when the first argument contains \<^verbatim>\<open>=\<close>, the variable
  is the text before the first \<^verbatim>\<open>=\<close> and the value is the text after it up to the
  second \<^verbatim>\<open>=\<close> (or to the end), the rest being dropped; otherwise the two arguments
  are taken as they are. With no value the command makes one get request, with a value
  one set request, and in both cases it prints \<^verbatim>\<open>var=result\<close> with the device's
  answer.
\<close>

theorem v_splits_at_equals_and_dispatches:
  assumes "check_comm E s = (Inr True, s1)" and "comm s1 = Some c"
  shows "(CHR ''='' \<in> set (v_variable args) \<longrightarrow>
            v_var_value args =
              Inr (takeWhile (\<lambda>ch. ch \<noteq> CHR ''='') (v_variable args),
                   Some (takeWhile (\<lambda>ch. ch \<noteq> CHR ''='')
                           (tl (dropWhile (\<lambda>ch. ch \<noteq> CHR ''='') (v_variable args))))))
       \<and> (CHR ''='' \<notin> set (v_variable args) \<longrightarrow>
            v_var_value args = Inr (v_variable args, v_value args))
       \<and> (\<forall>var r w'.
            v_var_value args = Inr (var, None) \<and>
            gp_get_variable E c var (world s1) = (Inr r, w') \<longrightarrow>
            v_cmd E (Inr (Some args)) s =
              (Inr (), s1\<lparr>world := w',
                         out := out s1 @ [Device (Some c) (Get_variable var),
                                          Print (var @ ''='' @ r)]\<rparr>))
       \<and> (\<forall>var val r w'.
            v_var_value args = Inr (var, Some val) \<and>
            gp_set_variable E c var val (world s1) = (Inr r, w') \<longrightarrow>
            v_cmd E (Inr (Some args)) s =
              (Inr (), s1\<lparr>world := w',
                         out := out s1 @ [Device (Some c) (Set_variable var val),
                                          Print (var @ ''='' @ r)]\<rparr>))"
proof -
  note chk = bindM_Inr [where f = "check_comm E", OF assms(1)]
  have eq: "v_var_value args =
              Inr (takeWhile (\<lambda>ch. ch \<noteq> CHR ''='') (v_variable args),
                   Some (takeWhile (\<lambda>ch. ch \<noteq> CHR ''='')
                           (tl (dropWhile (\<lambda>ch. ch \<noteq> CHR ''='') (v_variable args)))))"
    if "CHR ''='' \<in> set (v_variable args)"
    using that by (simp add: v_var_value_def take2_split)
  have noeq: "v_var_value args = Inr (v_variable args, v_value args)"
    if "CHR ''='' \<notin> set (v_variable args)"
    using that by (simp add: v_var_value_def)
  have vget: "v_cmd E (Inr (Some args)) s =
              (Inr (), s1\<lparr>world := w',
                         out := out s1 @ [Device (Some c) (Get_variable var),
                                          Print (var @ ''='' @ r)]\<rparr>)"
    if "v_var_value args = Inr (var, None)"
       "gp_get_variable E c var (world s1) = (Inr r, w')" for var r w'
    using that assms(2)
    by (simp add: v_cmd_def chk try_except_def bindM_call)
  have vset: "v_cmd E (Inr (Some args)) s =
              (Inr (), s1\<lparr>world := w',
                         out := out s1 @ [Device (Some c) (Set_variable var val),
                                          Print (var @ ''='' @ r)]\<rparr>)"
    if "v_var_value args = Inr (var, Some val)"
       "gp_set_variable E c var val (world s1) = (Inr r, w')" for var val r w'
    using that assms(2)
    by (simp add: v_cmd_def chk try_except_def bindM_call)
  from eq noeq vget vset show ?thesis by blast
qed

theorem v_splits_at_equals_and_dispatches_witness:
  "check_comm sim_env sim_connected = (Inr True, sim_connected)
   \<and> comm sim_connected = Some sim_comm
   \<and> v_var_value \<lparr>v_variable = ''Motor[1].JogSpeed=32=x'', v_value = None\<rparr>
       = Inr (''Motor[1].JogSpeed'', Some ''32'')
   \<and> gp_set_variable sim_env sim_comm ''Motor[1].JogSpeed'' ''32'' (world sim_connected)
       = (Inr ''32'', 1)
   \<and> v_cmd sim_env (Inr (Some \<lparr>v_variable = ''Motor[1].JogSpeed=32=x'', v_value = None\<rparr>))
         sim_connected
       = (Inr (), sim_connected\<lparr>world := 1,
            out := out sim_connected
                   @ [Device (Some sim_comm) (Set_variable ''Motor[1].JogSpeed'' ''32''),
                      Print (''Motor[1].JogSpeed'' @ ''='' @ ''32'')]\<rparr>)"
proof -
  have chk: "check_comm sim_env sim_connected = (Inr True, sim_connected)"
    by (rule sim_check_comm_connected)
  have cm: "comm sim_connected = Some sim_comm" by simp
  have wr: "gp_set_variable sim_env sim_comm ''Motor[1].JogSpeed'' ''32'' (world sim_connected)
              = (Inr ''32'', 1)"
    by (simp add: sim_set_variable_def)
  note sent = v_splits_at_equals_and_dispatches [OF chk cm, THEN conjunct2, THEN conjunct2,
                THEN conjunct2, rule_format, OF conjI, OF sim_v_var_value wr]
  from chk cm sim_v_var_value wr sent show ?thesis by (intro conjI)
qed

subsection \<open>C9: servo\_copy refuses to copy a motor onto itself\<close>




subsection \<open>C4: the address list of gather\<close>

text \<open>
  C4, as the code has it. Every address list that \<^verbatim>\<open>gather\<close> passes to
  \<^verbatim>\<open>gather.gather_and_plot\<close> consists of addresses that end in \<^verbatim>\<open>.a\<close> and contains
  \<^verbatim>\<open>Sys.ServoCount.a\<close>. The list is the list of fixed addresses (each address of the
  command after the completer and the suffix), with \<^verbatim>\<open>Sys.ServoCount.a\<close> put at
  position 0 exactly when the fixed list does not contain it.
\<close>

theorem gather_address_list:
  assumes "Device cm (Gather_and_plot addr d p) \<in> set (added s (snd (gather E parsed s)))"
  shows "(\<forall>a\<in>set addr. suffix ''.a'' a)
       \<and> ''Sys.ServoCount.a'' \<in> set addr
       \<and> (\<exists>args s1 fixed.
             parsed = Inr (Some args) \<and> check_comm E s = (Inr True, s1)
           \<and> list_all2 (\<lambda>a b. fix_addr E (completer_h s1) (world s1) a = Inr b)
                (gather_addresses args) fixed
           \<and> addr = (if ''Sys.ServoCount.a'' \<in> set fixed then fixed
                      else ''Sys.ServoCount.a'' # fixed))"
proof -
  from gather_request [OF assms] obtain args s1
    where parsed: "parsed = Inr (Some args)" and chk: "check_comm E s = (Inr True, s1)"
      and addr: "gather_addr E (completer_h s1) (world s1) (gather_addresses args) = Inr addr"
    by blast
  from gather_addr_Inr [OF addr] obtain fixed
    where fixed: "list_all2 (\<lambda>a b. fix_addr E (completer_h s1) (world s1) a = Inr b)
                    (gather_addresses args) fixed"
      and eq: "addr = (if ''Sys.ServoCount.a'' \<in> set fixed then fixed
                       else ''Sys.ServoCount.a'' # fixed)"
    by blast
  from list_all2_suffix [OF fixed] eq have "\<forall>a\<in>set addr. suffix ''.a'' a"
    by (auto simp: suffix_def)
  moreover from eq have "''Sys.ServoCount.a'' \<in> set addr" by (auto split: if_splits)
  ultimately show ?thesis using parsed chk fixed eq by blast
qed

theorem gather_address_list_witness:
  "Device (Some sim_comm) (Gather_and_plot [''Sys.ServoCount.a'', ''Motor[1].ActPos.a''] 1 1)
     \<in> set (added sim_connected
              (snd (gather sim_env
                      (Inr (Some \<lparr>gather_duration = 1, gather_period = 1,
                                  gather_addresses = [''Motor[1].ActPos'']\<rparr>)) sim_connected)))
   \<and> suffix ''.a'' ''Sys.ServoCount.a'' \<and> suffix ''.a'' ''Motor[1].ActPos.a''
   \<and> ''Sys.ServoCount.a'' \<in> set [''Sys.ServoCount.a'', ''Motor[1].ActPos.a'']"
proof -
  have sent: "Device (Some sim_comm)
                (Gather_and_plot [''Sys.ServoCount.a'', ''Motor[1].ActPos.a''] 1 1)
              \<in> set (added sim_connected
                       (snd (gather sim_env
                               (Inr (Some \<lparr>gather_duration = 1, gather_period = 1,
                                           gather_addresses = [''Motor[1].ActPos'']\<rparr>))
                               sim_connected)))"
    by (simp add: sim_gather_insert_run added_def)
  from gather_address_list [OF sent] sent show ?thesis by simp
qed

text \<open>
  C4 as stated fails. The test is made on the fixed addresses, not on the addresses
  the operator typed:
  for \<^verbatim>\<open>X Sys.ServoCount\<close> the typed addresses do not contain
  \<^verbatim>\<open>Sys.ServoCount.a\<close>, yet nothing is inserted and position 0 holds \<^verbatim>\<open>X.a\<close>.
\<close>

theorem gather_address_list_counterexample:
  "added sim_connected
     (snd (gather sim_env
             (Inr (Some \<lparr>gather_duration = 1, gather_period = 1,
                         gather_addresses = [''X'', ''Sys.ServoCount'']\<rparr>)) sim_connected))
     = [Device (Some sim_comm) (Gather_and_plot [''X.a'', ''Sys.ServoCount.a''] 1 1)]
   \<and> ''Sys.ServoCount.a'' \<notin> set [''X'', ''Sys.ServoCount'']
   \<and> [''X.a'', ''Sys.ServoCount.a''] ! 0 \<noteq> ''Sys.ServoCount.a''"
  by (simp add: sim_gather_run added_def)


subsection \<open>C5: get\_gather\_results and the missing address list\<close>

text \<open>
  C5. Let the settings file have been read as the dictionary \<open>settings\<close>, and let the
  retrieval of the gather data return. Then \<^verbatim>\<open>get_gather_results\<close> raises
  \<^verbatim>\<open>KeyError\<close> if and only if \<open>settings\<close> has no key \<^verbatim>\<open>gather.addr\<close>; otherwise it
  returns \<open>settings\<close> with the data retrieved for \<^verbatim>\<open>settings['gather.addr']\<close>.
  \<^verbatim>\<open>gather_save\<close> catches this \<^verbatim>\<open>KeyError\<close>, logs it and returns, with nothing
  saved or printed after it; an exception that is no \<^verbatim>\<open>KeyError\<close> is not caught.
\<close>

theorem get_gather_results_raises_keyerror_iff_no_addr:
  assumes read: "gather_read_settings_file E (comm s) settings_file (world s) = (Inr settings, w1)"
      and fetch: "\<forall>addresses. map_of settings ''gather.addr'' = Some addresses \<longrightarrow>
                    (\<exists>data w2. gather_get_gather_results E (comm s) addresses w1 = (Inr data, w2))"
  shows "((\<exists>m. fst (get_gather_results E settings_file verbose s) = Inl (KeyError m))
            \<longleftrightarrow> map_of settings ''gather.addr'' = None)
       \<and> (\<forall>addresses data w2.
             map_of settings ''gather.addr'' = Some addresses \<and>
             gather_get_gather_results E (comm s) addresses w1 = (Inr data, w2) \<longrightarrow>
             fst (get_gather_results E settings_file verbose s) = Inr (settings, data))
       \<and> (\<forall>args c.
             comm s = Some c \<and> gather_save_settings_file args = settings_file \<and>
             map_of settings ''gather.addr'' = None \<longrightarrow>
             gather_save E (Inr (Some args)) s =
               (Inr (),
                s\<lparr>world := w1,
                   out := out s @
                     [Print ''Reading gather settings...'',
                      Device (comm s) (Read_settings_file settings_file),
                      Print_settings settings,
                      Log_error (exn_str (KeyError
                        (''gather.addr: Unable to read addresses from settings file (''
                         @ str_opt settings_file @ '')'')))]\<rparr>))
       \<and> (\<forall>args c e s2.
             comm s = Some c \<and>
             get_gather_results E (gather_save_settings_file args) True s = (Inl e, s2) \<and>
             (\<forall>m. e \<noteq> KeyError m) \<longrightarrow>
             gather_save E (Inr (Some args)) s = (Inl e, s2))"
proof -
  have iff: "(\<exists>m. fst (get_gather_results E settings_file verbose s) = Inl (KeyError m))
               \<longleftrightarrow> map_of settings ''gather.addr'' = None"
  proof (cases "map_of settings ''gather.addr''")
    case None
    from get_gather_results_missing [OF read None] None show ?thesis by simp
  next
    case (Some addresses)
    with fetch obtain data w2
      where "gather_get_gather_results E (comm s) addresses w1 = (Inr data, w2)" by blast
    from get_gather_results_present [OF read Some this] Some show ?thesis by simp
  qed
  have returns: "fst (get_gather_results E settings_file verbose s) = Inr (settings, data)"
    if "map_of settings ''gather.addr'' = Some addresses"
       "gather_get_gather_results E (comm s) addresses w1 = (Inr data, w2)"
    for addresses data w2
    using get_gather_results_present [OF read that] by simp
  have caught: "gather_save E (Inr (Some args)) s =
               (Inr (),
                s\<lparr>world := w1,
                   out := out s @
                     [Print ''Reading gather settings...'',
                      Device (comm s) (Read_settings_file settings_file),
                      Print_settings settings,
                      Log_error (exn_str (KeyError
                        (''gather.addr: Unable to read addresses from settings file (''
                         @ str_opt settings_file @ '')'')))]\<rparr>)"
    if "comm s = Some c" "gather_save_settings_file args = settings_file"
       "map_of settings ''gather.addr'' = None" for args c
  proof -
    from that(2) get_gather_results_missing [OF read that(3), of True]
    have "get_gather_results E (gather_save_settings_file args) True s =
           (Inl (KeyError (''gather.addr: Unable to read addresses from settings file (''
                           @ str_opt settings_file @ '')'')),
            s\<lparr>world := w1,
               out := out s @ [Print ''Reading gather settings...'']
                      @ [Device (comm s) (Read_settings_file settings_file),
                         Print_settings settings]\<rparr>)"
      by simp
    from gather_save_KeyError [OF that(1) this] show ?thesis
      by (simp del: exn_str.simps)
  qed
  have passed: "gather_save E (Inr (Some args)) s = (Inl e, s2)"
    if "comm s = Some c"
       "get_gather_results E (gather_save_settings_file args) True s = (Inl e, s2)"
       "\<forall>m. e \<noteq> KeyError m" for args c e s2
    using that by (rule gather_save_other_exception)
  from iff returns caught passed show ?thesis by blast
qed


theorem get_gather_results_raises_keyerror_iff_no_addr_witness:
  "gather_read_settings_file sim_env (comm sim_connected) None (world sim_connected)
     = (Inr [(''gather.addr'', [''Sys.ServoCount.a'', ''Motor[1].ActPos.a''])], 1)
   \<and> gather_get_gather_results sim_env (comm sim_connected)
         [''Sys.ServoCount.a'', ''Motor[1].ActPos.a''] 1 = (Inr [[''0'', ''1.5'']], 2)
   \<and> fst (get_gather_results sim_env None True sim_connected)
       = Inr ([(''gather.addr'', [''Sys.ServoCount.a'', ''Motor[1].ActPos.a''])],
              [[''0'', ''1.5'']])"
proof -
  let ?settings = "[(''gather.addr'', [''Sys.ServoCount.a'', ''Motor[1].ActPos.a''])]"
  have read: "gather_read_settings_file sim_env (comm sim_connected) None (world sim_connected)
                = (Inr ?settings, 1)"
    by (simp add: sim_settings_def)
  have fetch: "\<forall>addresses. map_of ?settings ''gather.addr'' = Some addresses \<longrightarrow>
                 (\<exists>data w2. gather_get_gather_results sim_env (comm sim_connected) addresses 1
                               = (Inr data, w2))"
    by simp
  have key: "map_of ?settings ''gather.addr'' = Some [''Sys.ServoCount.a'', ''Motor[1].ActPos.a'']"
    by simp
  have data: "gather_get_gather_results sim_env (comm sim_connected)
                [''Sys.ServoCount.a'', ''Motor[1].ActPos.a''] 1 = (Inr [[''0'', ''1.5'']], 2)"
    by simp
  note returned = get_gather_results_raises_keyerror_iff_no_addr [OF read fetch, of True,
                    THEN conjunct2, THEN conjunct1, rule_format, OF conjI, OF key data]
  from read data returned show ?thesis by (intro conjI)
qed

subsection \<open>C10: get\_var\_values returns a value for every variable\<close>

text \<open>
  C10. Whenever \<^verbatim>\<open>get_var_values\<close> returns, its list is as long as the list of
  variables; and it does return for every list of variables as long as the reads raise
  nothing but \<^verbatim>\<open>GPError\<close> and \<^verbatim>\<open>TimeoutError\<close>. At each position, in the state the
  loop has reached there: a \<^verbatim>\<open>GPError\<close> or \<^verbatim>\<open>TimeoutError\<close> of the read gives the
  string \<^verbatim>\<open>Error: \<close> followed by the exception; an exception of the callback is
  dropped and the value read stays; otherwise the entry is the callback's result, or
  the value read when there is no callback.
\<close>

theorem get_var_values_total_on_listed_exceptions:
  "(\<forall>vals cs' s'. get_var_values E cm vars cb cs s = (Inr vals, cs', s') \<longrightarrow>
        length vals = length vars)
   \<and> ((\<forall>var w e w'. gp_get_variable E c var w = (Inl e, w') \<longrightarrow>
           (\<exists>m. e = GPError m \<or> e = TimeoutError m)) \<longrightarrow>
        (\<exists>vals cs' s'. get_var_values E (Some c) vars cb cs s = (Inr vals, cs', s')
                       \<and> length vals = length vars))
   \<and> (\<forall>pre var post vals cs' s'.
         vars = pre @ var # post \<and>
         get_var_values E (Some c) vars cb cs s = (Inr vals, cs', s') \<longrightarrow>
         (\<exists>vals0 cs0 s0.
            get_var_values E (Some c) pre cb cs s = (Inr vals0, cs0, s0) \<and>
            (case gp_get_variable E c var (world s0) of
               (Inl e, w) \<Rightarrow>
                 (\<exists>m. e = GPError m \<or> e = TimeoutError m) \<and>
                 vals ! length pre = Some (''Error: '' @ exn_str e)
             | (Inr v, w) \<Rightarrow>
                 (case cb of
                    None \<Rightarrow> vals ! length pre = Some v
                  | Some f \<Rightarrow>
                      (case f var v cs0 of
                         (Inl ex, cs1) \<Rightarrow> vals ! length pre = Some v
                       | (Inr r, cs1) \<Rightarrow> vals ! length pre = r)))))"
proof (intro conjI allI impI)
  fix vals cs' s'
  assume "get_var_values E cm vars cb cs s = (Inr vals, cs', s')"
  from get_var_values_from_acc [OF this [unfolded get_var_values_def]]
  show "length vals = length vars" by auto
next
  assume "\<forall>var w e w'. gp_get_variable E c var w = (Inl e, w') \<longrightarrow>
            (\<exists>m. e = GPError m \<or> e = TimeoutError m)"
  from get_var_values_from_total [OF this, of cb vars "[]" cs s]
  obtain vals cs' s' where run: "get_var_values E (Some c) vars cb cs s = (Inr vals, cs', s')"
    by (auto simp: get_var_values_def)
  from get_var_values_from_acc [OF this [unfolded get_var_values_def]]
  have "length vals = length vars" by auto
  with run show "\<exists>vals cs' s'. get_var_values E (Some c) vars cb cs s = (Inr vals, cs', s')
                   \<and> length vals = length vars"
    by blast
next
  fix pre var post vals cs' s'
  assume "vars = pre @ var # post \<and>
          get_var_values E (Some c) vars cb cs s = (Inr vals, cs', s')"
  then have run: "get_var_values_from E (Some c) cb (pre @ var # post) [] cs s = (Inr vals, cs', s')"
    by (auto simp: get_var_values_def)
  obtain r0 cs0 s0 where pre: "get_var_values_from E (Some c) cb pre [] cs s = (r0, cs0, s0)"
    by (metis surj_pair)
  with run obtain vals0 where r0: "r0 = Inr vals0"
    and rest: "get_var_values_from E (Some c) cb (var # post) vals0 cs0 s0 = (Inr vals, cs', s')"
    by (cases r0) (simp_all add: get_var_values_from_append_Some)
  from get_var_values_from_acc [OF pre [unfolded r0]] have len0: "length vals0 = length pre"
    by simp
  obtain r w where rd: "gp_get_variable E c var (world s0) = (r, w)" by (metis surj_pair)
  have at: "vals ! length pre = x"
    if "get_var_values_from E (Some c) cb1 post (vals0 @ [x]) cs1 s1 = (Inr vals, cs', s')"
    for x cs1 s1 cb1
    using get_var_values_from_acc [OF that] len0 by (auto simp: nth_append)
  from pre r0 have pre': "get_var_values_from E (Some c) cb pre [] cs s = (Inr vals0, cs0, s0)"
    by simp
  have pos: "case gp_get_variable E c var (world s0) of
               (Inl e, w) \<Rightarrow>
                 (\<exists>m. e = GPError m \<or> e = TimeoutError m) \<and>
                 vals ! length pre = Some (''Error: '' @ exn_str e)
             | (Inr v, w) \<Rightarrow>
                 (case cb of
                    None \<Rightarrow> vals ! length pre = Some v
                  | Some f \<Rightarrow>
                      (case f var v cs0 of
                         (Inl ex, cs1) \<Rightarrow> vals ! length pre = Some v
                       | (Inr r, cs1) \<Rightarrow> vals ! length pre = r))"
  proof (cases r)
    case (Inl e)
    with rest rd show ?thesis
      by (auto simp: get_var_values_from_step Let_def split: if_splits dest!: at)
  next
    case (Inr v)
    show ?thesis
    proof (cases cb)
      case None
      with rest rd Inr show ?thesis
        by (auto simp: get_var_values_from_step Let_def dest!: at)
    next
      case (Some f)
      obtain r1 cs1 where f: "f var v cs0 = (r1, cs1)" by (metis surj_pair)
      with rest rd Inr Some show ?thesis
        by (cases r1) (auto simp: get_var_values_from_step Let_def dest!: at)
    qed
  qed
  show "\<exists>vals0 cs0 s0.
            get_var_values E (Some c) pre cb cs s = (Inr vals0, cs0, s0) \<and>
            (case gp_get_variable E c var (world s0) of
               (Inl e, w) \<Rightarrow>
                 (\<exists>m. e = GPError m \<or> e = TimeoutError m) \<and>
                 vals ! length pre = Some (''Error: '' @ exn_str e)
             | (Inr v, w) \<Rightarrow>
                 (case cb of
                    None \<Rightarrow> vals ! length pre = Some v
                  | Some f \<Rightarrow>
                      (case f var v cs0 of
                         (Inl ex, cs1) \<Rightarrow> vals ! length pre = Some v
                       | (Inr r, cs1) \<Rightarrow> vals ! length pre = r)))"
    unfolding get_var_values_def
    by (rule exI [where x = vals0], rule exI [where x = cs0], rule exI [where x = s0])
       (rule conjI [OF pre' pos])
qed


lemma sim_get_var_values_run:
  "get_var_values sim_env (Some sim_comm) [''bad'', ''tick'']
     (Some (\<lambda>var v cs. (Inl (ValueError ''not a number''), cs))) () sim_connected
   = (Inr [Some ''Error: ILLEGAL CMD'', Some ''1''], (),
      sim_connected\<lparr>world := 2,
        out := [Device (Some sim_comm) (Get_variable ''bad''),
                Device (Some sim_comm) (Get_variable ''tick'')]\<rparr>)"
  by (simp add: get_var_values_def get_var_values_from.simps call_apply sim_get_variable_def)

theorem get_var_values_total_on_listed_exceptions_witness:
  "get_var_values sim_env (Some sim_comm) [''bad'', ''tick'']
     (Some (\<lambda>var v cs. (Inl (ValueError ''not a number''), cs))) () sim_connected
   = (Inr [Some ''Error: ILLEGAL CMD'', Some ''1''], (),
      sim_connected\<lparr>world := 2,
        out := [Device (Some sim_comm) (Get_variable ''bad''),
                Device (Some sim_comm) (Get_variable ''tick'')]\<rparr>)
   \<and> length [Some ''Error: ILLEGAL CMD'', Some ''1''] = length [''bad'', ''tick'']"
  using get_var_values_total_on_listed_exceptions [THEN conjunct1, rule_format,
          OF sim_get_var_values_run] sim_get_var_values_run
  by (intro conjI)

subsection \<open>C3: the polling loop prints a variable when its value changed\<close>




subsection \<open>C2: the status filter hides a normal value until the variable was shown\<close>

text \<open>
  C2. Take \<^verbatim>\<open>mstatus\<close> without \<^verbatim>\<open>--all\<close>, a variable whose short name (the text after
  its last dot) is in \<^verbatim>\<open>const.motor_normal\<close> and not among \<^verbatim>\<open>additional\<close>, and any
  sequence of earlier calls of \<^verbatim>\<open>got_value\<close> from the empty \<^verbatim>\<open>last_values\<close>. Then
  \<^verbatim>\<open>got_value\<close> returns \<^verbatim>\<open>None\<close> exactly when \<^verbatim>\<open>int(value)\<close> is the normal value and
  no earlier call for that short name returned a value other than \<^verbatim>\<open>None\<close>; a value
  whose integer differs from the normal value is always returned. The callback of
  \<^verbatim>\<open>cstatus\<close> is the same function of its table.
\<close>

theorem got_value_suppresses_only_first_normal_values:
  assumes "\<not> args_all"
      and "last (split CHR ''.'' vname) \<notin> set args_additional"
      and "motor_normal (last (split CHR ''.'' vname)) = Some normal_value"
      and "got_value_calls (mstatus_got_value int_of args_all args_additional motor_normal)
             calls Map.empty = (results, last_values)"
  shows "(fst (mstatus_got_value int_of args_all args_additional motor_normal vname v last_values)
            = Inr None
          \<longleftrightarrow> int_of v = Inr normal_value
              \<and> \<not> (\<exists>c r x. (c, r) \<in> set (zip calls results)
                          \<and> last (split CHR ''.'' (fst c)) = last (split CHR ''.'' vname)
                          \<and> r = Inr (Some x)))
       \<and> (\<forall>n. int_of v = Inr n \<and> n \<noteq> normal_value \<longrightarrow>
            fst (mstatus_got_value int_of args_all args_additional motor_normal vname v last_values)
              = Inr (Some v))
       \<and> cstatus_got_value int_of args_all args_additional motor_normal vname v last_values
           = mstatus_got_value int_of args_all args_additional motor_normal vname v last_values"
proof -
  let ?k = "last (split CHR ''.'' vname)"
  from got_value_calls_last_value [where motor_normal = motor_normal and k = ?k, OF assms(1-4)]
  have seen: "(case last_values ?k of None \<Rightarrow> None | Some r \<Rightarrow> r) \<noteq> None \<longleftrightarrow>
                (\<exists>c r x. (c, r) \<in> set (zip calls results) \<and> last (split CHR ''.'' (fst c)) = ?k
                          \<and> r = Inr (Some x))"
    by simp
  note eq = mstatus_got_value_filtered [where motor_normal = motor_normal and vname = vname
              and int_of = int_of and v = v and last_values = last_values, OF assms(1-3)]
  have first: "fst (mstatus_got_value int_of args_all args_additional motor_normal vname v last_values)
                 = Inr None
               \<longleftrightarrow> int_of v = Inr normal_value
                   \<and> \<not> (\<exists>c r x. (c, r) \<in> set (zip calls results)
                               \<and> last (split CHR ''.'' (fst c)) = ?k \<and> r = Inr (Some x))"
    unfolding eq seen [symmetric] by (cases "int_of v") auto
  have second: "fst (mstatus_got_value int_of args_all args_additional motor_normal vname v last_values)
                  = Inr (Some v)"
    if "int_of v = Inr n \<and> n \<noteq> normal_value" for n
    unfolding eq using that by simp
  have third: "cstatus_got_value int_of args_all args_additional motor_normal vname v last_values
                 = mstatus_got_value int_of args_all args_additional motor_normal vname v last_values"
    by (simp add: cstatus_got_value_eq)
  show ?thesis
  proof (intro conjI allI impI)
    show "fst (mstatus_got_value int_of args_all args_additional motor_normal vname v last_values)
            = Inr None
          \<longleftrightarrow> int_of v = Inr normal_value
              \<and> \<not> (\<exists>c r x. (c, r) \<in> set (zip calls results)
                          \<and> last (split CHR ''.'' (fst c)) = last (split CHR ''.'' vname)
                          \<and> r = Inr (Some x))"
      by (rule first)
  next
    fix n
    assume "int_of v = Inr n \<and> n \<noteq> normal_value"
    then show "fst (mstatus_got_value int_of args_all args_additional motor_normal vname v
                      last_values) = Inr (Some v)"
      by (rule second)
  next
    show "cstatus_got_value int_of args_all args_additional motor_normal vname v last_values
            = mstatus_got_value int_of args_all args_additional motor_normal vname v last_values"
      by (rule third)
  qed
qed


lemma sim_got_value_calls_run:
  "got_value_calls (mstatus_got_value sim_int False [] sim_motor_normal)
     [(''Motor[1].AmpFault'', ''1''), (''Motor[1].InPos'', ''1'')] Map.empty
   = ([Inr (Some ''1''), Inr None], [''AmpFault'' \<mapsto> Some ''1'', ''InPos'' \<mapsto> None])"
  by (simp add: mstatus_got_value_def sim_int_def sim_motor_normal_def)

theorem got_value_suppresses_only_first_normal_values_witness:
  "\<not> False
   \<and> last (split CHR ''.'' ''Motor[1].InPos'') \<notin> set []
   \<and> sim_motor_normal (last (split CHR ''.'' ''Motor[1].InPos'')) = Some 1
   \<and> got_value_calls (mstatus_got_value sim_int False [] sim_motor_normal)
        [(''Motor[1].AmpFault'', ''1''), (''Motor[1].InPos'', ''1'')] Map.empty
       = ([Inr (Some ''1''), Inr None], [''AmpFault'' \<mapsto> Some ''1'', ''InPos'' \<mapsto> None])
   \<and> sim_int ''1'' = Inr 1
   \<and> fst (mstatus_got_value sim_int False [] sim_motor_normal ''Motor[1].InPos'' ''1''
             [''AmpFault'' \<mapsto> Some ''1'', ''InPos'' \<mapsto> None]) = Inr None"
proof -
  have h1: "\<not> False" by simp
  have h2: "last (split CHR ''.'' ''Motor[1].InPos'') \<notin> set []" by simp
  have h3: "sim_motor_normal (last (split CHR ''.'' ''Motor[1].InPos'')) = Some 1"
    by (simp add: sim_motor_normal_def)
  have i1: "sim_int ''1'' = Inr 1" by (simp add: sim_int_def)
  have unseen: "\<not> (\<exists>c r x. (c, r) \<in> set (zip [(''Motor[1].AmpFault'', ''1''), (''Motor[1].InPos'', ''1'')]
                                           [Inr (Some ''1''), Inr None])
                   \<and> last (split CHR ''.'' (fst c)) = last (split CHR ''.'' ''Motor[1].InPos'')
                   \<and> r = Inr (Some x))"
    by auto
  from got_value_suppresses_only_first_normal_values
         [where motor_normal = sim_motor_normal and int_of = sim_int and v = "''1''",
          OF h1 h2 h3 sim_got_value_calls_run, THEN conjunct1] i1 unseen
  have "fst (mstatus_got_value sim_int False [] sim_motor_normal ''Motor[1].InPos'' ''1''
               [''AmpFault'' \<mapsto> Some ''1'', ''InPos'' \<mapsto> None]) = Inr None"
    by blast
  with h2 h3 sim_got_value_calls_run i1 show ?thesis by (intro conjI) simp_all
qed

end
